theory Spec2Isabelle
  imports Main
begin

section \<open>The launcher of lan-play-bridge (src/launcher/launcher.js)\<close>

text \<open>
  The launcher is a single-threaded, event-driven Node.js program. Its module-level
  variables form one state record; every callback of the source (subprocess output,
  subprocess exit, WebSocket connection and message, monitor tick, signal, timer) is a
  function from state to state. What a callback does to the outside world (console
  lines, frames sent on a socket, sockets closed, processes spawned and signalled,
  timers armed, process exit) is appended to the \<open>effects\<close> trace of the state, in
  the order in which the source performs it.
\<close>

subsection \<open>Strings and numbers\<close>

text \<open>Number-to-string conversion of a non-negative integer, as \<open>'HTTP ' + res.statusCode\<close> does.\<close>

definition digit_char :: "nat \<Rightarrow> char" where
  "digit_char d = ''0123456789'' ! d"

fun string_of_nat :: "nat \<Rightarrow> string" where
  "string_of_nat n =
     (if n < 10 then [digit_char n] else string_of_nat (n div 10) @ [digit_char (n mod 10)])"

declare string_of_nat.simps [simp del]

text \<open>
  A JavaScript string is held in two forms. Everything the launcher prints or puts
  together from literals is a \<open>string\<close>: the bytes of its UTF-8 form, as they reach
  the console. The text of a chunk of subprocess output, \<open>data.toString()\<close>, is the
  list of its code points: the decoder has already turned the bytes of the chunk into
  characters (U+FFFD for bytes that are not UTF-8), so it holds no surrogate and nothing
  above U+10FFFF.

  \<open>String.prototype.trim\<close> strips white space and line terminators at both ends:
  TAB, LF, VT, FF, CR, SPACE, U+00A0, U+1680, U+2000 to U+200A, U+2028, U+2029, U+202F,
  U+205F, U+3000 and U+FEFF.
\<close>

definition is_ws :: "nat \<Rightarrow> bool" where
  "is_ws c =
     (c \<in> {0x09, 0x0A, 0x0B, 0x0C, 0x0D, 0x20, 0xA0, 0x1680, 0x2028, 0x2029, 0x202F, 0x205F,
            0x3000, 0xFEFF}
      \<or> (0x2000 \<le> c \<and> c \<le> 0x200A))"

definition trim :: "nat list \<Rightarrow> nat list" where
  "trim s = rev (dropWhile is_ws (rev (dropWhile is_ws s)))"

text \<open>
  The UTF-8 form of a code point, and of a text. (A lone surrogate is printed as
  U+FFFD; a decoded chunk has none.)
\<close>

definition utf8_char :: "nat \<Rightarrow> string" where
  "utf8_char c =
     (if c < 0x80 then [char_of c]
      else if c < 0x800 then [char_of (0xC0 + c div 0x40), char_of (0x80 + c mod 0x40)]
      else if 0xD800 \<le> c \<and> c \<le> 0xDFFF then [CHR 0xEF, CHR 0xBF, CHR 0xBD]
      else if c < 0x10000
      then [char_of (0xE0 + c div 0x1000), char_of (0x80 + c div 0x40 mod 0x40),
            char_of (0x80 + c mod 0x40)]
      else [char_of (0xF0 + c div 0x40000), char_of (0x80 + c div 0x1000 mod 0x40),
            char_of (0x80 + c div 0x40 mod 0x40), char_of (0x80 + c mod 0x40)])"

definition utf8 :: "nat list \<Rightarrow> string" where
  "utf8 cs = concat (map utf8_char cs)"

text \<open>
  JavaScript truthiness of a header value: \<open>undefined\<close> (header absent) and the empty
  string are falsy, every other string is truthy.
\<close>

fun truthy :: "string option \<Rightarrow> bool" where
  "truthy None = False"
| "truthy (Some v) = (v \<noteq> [])"

subsection \<open>Configuration\<close>

text \<open>
  \<open>CONFIG.relay\<close> comes from the command line or the baked configuration,
  \<open>PLATFORM\<close> is \<open>process.platform\<close>, and \<open>BASE_DIR\<close> is the directory of the
  launcher; the other constants are literals of the source.
\<close>

record config =
  CONFIG_relay :: string
  PLATFORM :: string
  BASE_DIR :: string

definition wsPort :: nat where "wsPort = 25190"
definition heartbeatTimeoutMs :: int where "heartbeatTimeoutMs = 30 * 1000"
definition inactivityTimeoutMs :: int where "inactivityTimeoutMs = 10 * 60 * 1000"
definition checkIntervalMs :: int where "checkIntervalMs = 5 * 1000"
definition lanPlayVersion :: string where "lanPlayVersion = ''0.2.3''"

definition BINARY_NAME :: "config \<Rightarrow> string" where
  "BINARY_NAME c =
     (if PLATFORM c = ''win32'' then ''lan-play-win64.exe''
      else if PLATFORM c = ''darwin'' then ''lan-play-macos''
      else ''lan-play-linux'')"

definition BINARY_URL :: "config \<Rightarrow> string" where
  "BINARY_URL c =
     ''https://github.com/spacemeowx2/switch-lan-play/releases/download/v''
       @ lanPlayVersion @ ''/'' @ BINARY_NAME c"

text \<open>
  \<open>path.join(BASE_DIR, BINARY_NAME)\<close>, with the separator of the platform;
  \<open>BASE_DIR\<close> comes from \<open>path.dirname\<close> and ends in a separator only when it is
  a root.
\<close>

definition pathSep :: "config \<Rightarrow> char" where
  "pathSep c = (if PLATFORM c = ''win32'' then CHR 0x5C else CHR ''/'')"

definition BINARY_PATH :: "config \<Rightarrow> string" where
  "BINARY_PATH c =
     (if BASE_DIR c \<noteq> [] \<and> last (BASE_DIR c) = pathSep c
      then BASE_DIR c @ BINARY_NAME c
      else BASE_DIR c @ [pathSep c] @ BINARY_NAME c)"

subsection \<open>Messages, effects and state\<close>

type_synonym ws = nat

record status =
  running :: bool
  relay :: string
  platform :: string
  version :: string

text \<open>The three objects the launcher serialises onto a socket.\<close>

datatype msg =
    StatusMsg status          \<comment> \<open>\<open>{type: 'status', data: getStatus()}\<close>\<close>
  | HeartbeatAck              \<comment> \<open>\<open>{type: 'heartbeat-ack'}\<close>\<close>
  | ShutdownMsg string        \<comment> \<open>\<open>{type: 'shutdown', reason: ...}\<close>\<close>

datatype task = RestartTask | ExitTask

datatype effect =
    Log string                          \<comment> \<open>\<open>log(msg)\<close>\<close>
  | Send ws msg                         \<comment> \<open>\<open>ws.send(JSON.stringify(obj))\<close>\<close>
  | Close ws "(nat \<times> string) option"    \<comment> \<open>\<open>ws.close()\<close> or \<open>ws.close(code, reason)\<close>\<close>
  | Spawn nat string "string list"      \<comment> \<open>\<open>spawn(BINARY_PATH, args, ...)\<close>, with the new handle's number\<close>
  | Kill nat                            \<comment> \<open>\<open>lanPlayProc.kill()\<close>\<close>
  | SetTimeout task nat                 \<comment> \<open>\<open>setTimeout(callback, delay)\<close>\<close>
  | SetInterval nat                     \<comment> \<open>\<open>setInterval(monitor, delay)\<close>\<close>
  | Listen nat string                   \<comment> \<open>\<open>server.listen(port, host)\<close>\<close>
  | Exit nat                            \<comment> \<open>\<open>process.exit(code)\<close>\<close>

text \<open>
  A \<open>ChildProcess\<close> handle: \<open>killed\<close> is the property the source reads; \<open>alive\<close> is
  whether the operating-system process still exists, which decides whether \<open>kill()\<close>
  delivers its signal and sets \<open>killed\<close>.
\<close>

record proc =
  pid :: nat
  killed :: bool
  alive :: bool

text \<open>
  The module-level variables of the source, followed by what the runtime holds:
  the \<open>readyState\<close> of every socket (1 is OPEN, 2 is CLOSING, 3 is CLOSED), the armed
  one-shot timers with their due times, the clock read by \<open>Date.now()\<close>, the number of
  the next process handle, whether \<open>process.exit\<close> has run, and the trace of effects.
  \<open>connectedClients\<close> is a JavaScript \<open>Set\<close>: a list without duplicates in insertion
  order.
\<close>

record state =
  CONFIG :: config
  lanPlayProc :: "proc option"
  lanPlayRunning :: bool
  lastHeartbeat :: int
  hasReceivedHeartbeat :: bool
  lastActivity :: int
  shuttingDown :: bool
  connectedClients :: "ws list"
  readyState :: "ws \<Rightarrow> nat"
  timers :: "(int \<times> task) list"
  clock :: int
  nextPid :: nat
  exited :: bool
  effects :: "effect list"

definition emit :: "effect \<Rightarrow> state \<Rightarrow> state" where
  "emit e s = s\<lparr>effects := effects s @ [e]\<rparr>"

definition log :: "state \<Rightarrow> string \<Rightarrow> state" where
  "log s m = emit (Log m) s"

text \<open>\<open>Set.prototype.add\<close> and \<open>Set.prototype.delete\<close>.\<close>

definition set_add :: "ws \<Rightarrow> ws list \<Rightarrow> ws list" where
  "set_add w ws = (if w \<in> set ws then ws else ws @ [w])"

definition set_delete :: "ws \<Rightarrow> ws list \<Rightarrow> ws list" where
  "set_delete w ws = removeAll w ws"

text \<open>\<open>setTimeout\<close>: the callback becomes due \<open>delay\<close> milliseconds from now.\<close>

definition setTimeout :: "state \<Rightarrow> task \<Rightarrow> nat \<Rightarrow> state" where
  "setTimeout s t delay =
     emit (SetTimeout t delay) (s\<lparr>timers := timers s @ [(clock s + int delay, t)]\<rparr>)"

text \<open>
  \<open>ws.close\<close> of the ws library: an open socket starts its closing handshake and is
  CLOSING from then on; the \<open>'close'\<close> event comes later, from the event loop.
\<close>

definition ws_close :: "state \<Rightarrow> ws \<Rightarrow> (nat \<times> string) option \<Rightarrow> state" where
  "ws_close s w c =
     emit (Close w c)
       (s\<lparr>readyState := (readyState s)(w := (if readyState s w = 1 then 2 else readyState s w))\<rparr>)"

subsection \<open>Status and sending\<close>

definition getStatus :: "state \<Rightarrow> status" where
  "getStatus s =
     \<lparr>running = lanPlayRunning s, relay = CONFIG_relay (CONFIG s),
      platform = PLATFORM (CONFIG s), version = lanPlayVersion\<rparr>"

definition wsSend :: "state \<Rightarrow> ws \<Rightarrow> msg \<Rightarrow> state" where
  "wsSend s w obj = (if readyState s w = 1 then emit (Send w obj) s else s)"

text \<open>The payload is computed once, before the loop over the set.\<close>

definition broadcastStatus :: "state \<Rightarrow> state" where
  "broadcastStatus s =
     (let payload = StatusMsg (getStatus s)
      in fold (\<lambda>w s'. if readyState s' w = 1 then emit (Send w payload) s' else s')
           (connectedClients s) s)"

subsection \<open>Shutdown\<close>

definition kill :: "state \<Rightarrow> proc \<Rightarrow> state" where
  "kill s p = emit (Kill (pid p)) (s\<lparr>lanPlayProc := Some (p\<lparr>killed := (killed p \<or> alive p)\<rparr>)\<rparr>)"

definition shutdown :: "state \<Rightarrow> state" where
  "shutdown s =
     (if shuttingDown s then s
      else
        let s1 = log (s\<lparr>shuttingDown := True\<rparr>) ''Shutting down...'';
            s2 = fold (\<lambda>w s'. ws_close (wsSend s' w (ShutdownMsg ''timeout'')) w None)
                   (connectedClients s1) s1;
            s3 = (case lanPlayProc s2 of
                    Some p \<Rightarrow> if \<not> killed p then kill s2 p else s2
                  | None \<Rightarrow> s2)
        in setTimeout s3 ExitTask 1000)"

text \<open>The callback armed by \<open>shutdown\<close>.\<close>

definition exitCallback :: "state \<Rightarrow> state" where
  "exitCallback s = (emit (Exit 0) (log s ''Goodbye.''))\<lparr>exited := True\<rparr>"

datatype signal = SIGINT | SIGTERM

definition onSignal :: "state \<Rightarrow> signal \<Rightarrow> state" where
  "onSignal s sg =
     shutdown (log s (case sg of SIGINT \<Rightarrow> ''Received SIGINT.'' | SIGTERM \<Rightarrow> ''Received SIGTERM.''))"

subsection \<open>The auto-shutdown monitor\<close>

definition heartbeatTimeoutLog :: string where
  "heartbeatTimeoutLog =
     ''No heartbeat for '' @ string_of_nat (nat (heartbeatTimeoutMs div 1000))
       @ ''s. Browser tab likely closed.''"

definition inactivityTimeoutLog :: string where
  "inactivityTimeoutLog =
     ''No activity for '' @ string_of_nat (nat (inactivityTimeoutMs div 60000)) @ '' minutes.''"

text \<open>One firing of the \<open>setInterval\<close> callback of \<open>startShutdownMonitor\<close>.\<close>

definition monitorTick :: "state \<Rightarrow> state" where
  "monitorTick s =
     (if shuttingDown s then s
      else
        let now = clock s in
        if hasReceivedHeartbeat s \<and> now - lastHeartbeat s > heartbeatTimeoutMs
        then shutdown (log s heartbeatTimeoutLog)
        else if now - lastActivity s > inactivityTimeoutMs
        then shutdown (log s inactivityTimeoutLog)
        else s)"

subsection \<open>The lan-play subprocess\<close>

text \<open>The arrow of the first log line is U+2192, three bytes in UTF-8.\<close>

definition startLanPlay :: "state \<Rightarrow> state" where
  "startLanPlay s =
     (let s1 = log s (''Starting lan-play '' @ [CHR 0xE2, CHR 0x86, CHR 0x92] @ '' ''
                        @ CONFIG_relay (CONFIG s));
          args = [''--relay-server-addr'', CONFIG_relay (CONFIG s)];
          s2 = emit (Spawn (nextPid s1) (BINARY_PATH (CONFIG s1)) args)
                 (s1\<lparr>lanPlayProc := Some \<lparr>pid = nextPid s1, killed = False, alive = True\<rparr>,
                     nextPid := Suc (nextPid s1)\<rparr>);
          s3 = s2\<lparr>lanPlayRunning := True, lastActivity := clock s2\<rparr>
      in broadcastStatus s3)"

text \<open>
  The \<open>'data'\<close> callbacks of the two output streams; \<open>chunk\<close> is
  \<open>data.toString()\<close>.
\<close>

definition onStdoutData :: "state \<Rightarrow> nat list \<Rightarrow> state" where
  "onStdoutData s chunk =
     (let line = trim chunk;
          s1 = (if line \<noteq> [] then log s (''[lan-play] '' @ utf8 line) else s);
          s2 = s1\<lparr>lastActivity := clock s1\<rparr>
      in broadcastStatus s2)"

definition onStderrData :: "state \<Rightarrow> nat list \<Rightarrow> state" where
  "onStderrData s chunk =
     (let line = trim chunk;
          s1 = (if line \<noteq> [] then log s (''[lan-play] '' @ utf8 line) else s)
      in s1\<lparr>lastActivity := clock s1\<rparr>)"

text \<open>
  The exit code is \<open>null\<close> when a signal ended the process, and negative when the
  process could not be spawned.
\<close>

definition show_code :: "int option \<Rightarrow> string" where
  "show_code c =
     (case c of
        None \<Rightarrow> ''null''
      | Some n \<Rightarrow> if n < 0 then ''-'' @ string_of_nat (nat (- n)) else string_of_nat (nat n))"

definition onProcClose :: "state \<Rightarrow> int option \<Rightarrow> state" where
  "onProcClose s code =
     (let s1 = log s (''lan-play exited with code '' @ show_code code);
          s2 = broadcastStatus (s1\<lparr>lanPlayRunning := False\<rparr>)
      in if \<not> shuttingDown s2
         then setTimeout (log s2 ''lan-play crashed. Restarting in 3 seconds...'') RestartTask 3000
         else s2)"

definition onProcError :: "state \<Rightarrow> string \<Rightarrow> state" where
  "onProcError s m = (log s (''Failed to start lan-play: '' @ m))\<lparr>lanPlayRunning := False\<rparr>"

subsection \<open>The WebSocket server\<close>

text \<open>
  The value \<open>JSON.parse\<close> returns. Property lists hold the own properties of the parsed
  object, each key once.
\<close>

datatype json =
    JNull | JBool bool | JNumber int | JString string
  | JArray "json list" | JObject "(string \<times> json) list"

datatype exn = SyntaxError | TypeError

text \<open>
  \<open>msg.type\<close>: reading a property of \<open>null\<close> throws a TypeError; on a primitive or an
  array the property \<open>type\<close> is \<open>undefined\<close> (\<open>None\<close>).
\<close>

fun get_type :: "json \<Rightarrow> exn + json option" where
  "get_type JNull = Inl TypeError"
| "get_type (JObject kvs) = Inr (map_of kvs ''type'')"
| "get_type _ = Inr None"

text \<open>
  The \<open>'connection'\<close> callback; \<open>forwarded\<close> is \<open>req.headers['x-forwarded-for']\<close>,
  \<open>None\<close> when the request has no such header.
\<close>

definition onConnection :: "state \<Rightarrow> ws \<Rightarrow> string option \<Rightarrow> state" where
  "onConnection s w forwarded =
     (if truthy forwarded
      then ws_close (log s ''Rejected connection with X-Forwarded-For header (possible proxy)'')
             w (Some (4003, ''Forbidden''))
      else
        let s1 = log s ''Browser connected'';
            s2 = s1\<lparr>connectedClients := set_add w (connectedClients s1)\<rparr>;
            s3 = s2\<lparr>lastActivity := clock s2\<rparr>
        in wsSend s3 w (StatusMsg (getStatus s3)))"

text \<open>
  The \<open>'message'\<close> callback of an accepted socket. \<open>parsed\<close> is the outcome of
  \<open>JSON.parse(raw.toString())\<close>: \<open>Inl SyntaxError\<close> when it throws. Whatever is thrown
  inside the \<open>try\<close> block is caught and ignored.
\<close>

definition onMessage :: "state \<Rightarrow> ws \<Rightarrow> exn + json \<Rightarrow> state" where
  "onMessage s w parsed =
     (let s1 = s\<lparr>lastActivity := clock s\<rparr> in
      case parsed of
        Inl e \<Rightarrow> s1
      | Inr m \<Rightarrow>
          (case get_type m of
             Inl e \<Rightarrow> s1
           | Inr t \<Rightarrow>
               if t = Some (JString ''heartbeat'')
               then wsSend (s1\<lparr>lastHeartbeat := clock s1, hasReceivedHeartbeat := True\<rparr>)
                      w HeartbeatAck
               else if t = Some (JString ''status'')
               then wsSend s1 w (StatusMsg (getStatus s1))
               else s1))"

definition onWsClose :: "state \<Rightarrow> ws \<Rightarrow> state" where
  "onWsClose s w =
     (let s1 = log s ''Browser disconnected''
      in s1\<lparr>connectedClients := set_delete w (connectedClients s1)\<rparr>)"

definition startWebSocketServer :: "state \<Rightarrow> state" where
  "startWebSocketServer s = emit (Listen wsPort ''127.0.0.1'') s"

definition startShutdownMonitor :: "state \<Rightarrow> state" where
  "startShutdownMonitor s = emit (SetInterval (nat checkIntervalMs)) s"

subsection \<open>Binary download\<close>

text \<open>
  The file system maps a path to the content of the file there. The network is the
  environment's answer to \<open>getter.get\<close> at each redirect depth:
  \<^item> \<open>GetThrows\<close>: the call throws at once and makes no request, as the HTTP client
    does for a string that is not an absolute URL of its own scheme (a relative
    reference, another protocol);
  \<^item> \<open>NetError\<close>: the request emits \<open>'error'\<close> before any response;
  \<^item> \<open>NoAnswer\<close>: neither comes (the source sets no timeout);
  \<^item> \<open>Response\<close>: a response arrives, with its status code, its \<open>Location\<close> header
    (\<open>None\<close> when absent), the bytes of the body that arrive, and whether the body
    ends properly after them (\<open>ended\<close>) or the connection is closed before its end,
    which reaches no callback of the source.
  The disk says how the write stream fares: it opens and takes every byte, or it cannot
  be opened, or the write after \<open>n\<close> bytes fails. The stream has no \<open>'error'\<close>
  listener of the source.
\<close>

type_synonym files = "string \<rightharpoonup> string"

record response =
  statusCode :: nat
  location :: "string option"
  body :: string
  ended :: bool

datatype http_result = NetError string | Response response | GetThrows string | NoAnswer

type_synonym net = "nat \<Rightarrow> string \<Rightarrow> http_result"

datatype disk = DiskOk | OpenFails | WriteFails nat

text \<open>\<open>url.startsWith('https') ? https : http\<close>.\<close>

datatype getter = Https | Http

definition getterFor :: "string \<Rightarrow> getter" where
  "getterFor url = (if take 5 url = ''https'' then Https else Http)"

text \<open>
  The test \<open>res.statusCode >= 300 && res.statusCode < 400 && res.headers.location\<close>;
  when it holds, the URL the next request goes to.
\<close>

definition redirectTarget :: "response \<Rightarrow> string option" where
  "redirectTarget res =
     (if statusCode res \<ge> 300 \<and> statusCode res < 400 \<and> truthy (location res)
      then location res else None)"

text \<open>
  \<open>followRedirects\<close> returns the URLs it requested, in order, and how it ends: the
  message of the error handed to \<open>onError\<close>, the response handed to \<open>onResponse\<close>,
  the depth at which \<open>getter.get\<close> threw, with the message of the exception, or
  a request left without an answer.
\<close>

datatype fetched = OnError string | OnResponse response | Thrown nat string | Unanswered

function followRedirects :: "net \<Rightarrow> string \<Rightarrow> nat \<Rightarrow> string list \<times> fetched" where
  "followRedirects net url depth =
     (if depth > 5 then ([], OnError ''Too many redirects'')
      else
        case net depth url of
          GetThrows m \<Rightarrow> ([], Thrown depth m)
        | NoAnswer \<Rightarrow> ([url], Unanswered)
        | NetError m \<Rightarrow> ([url], OnError m)
        | Response res \<Rightarrow>
            (case redirectTarget res of
               Some l \<Rightarrow> apfst ((#) url) (followRedirects net l (depth + 1))
             | None \<Rightarrow>
                 if statusCode res \<noteq> 200
                 then ([url], OnError (''HTTP '' @ string_of_nat (statusCode res)))
                 else ([url], OnResponse res)))"
  by pat_completeness auto
termination
  by (relation "measure (\<lambda>(net, url, depth). 6 - depth)") auto

declare followRedirects.simps [simp del]

datatype outcome = Resolved | Rejected string

datatype fs_effect =
    FsLog string                   \<comment> \<open>\<open>log(msg)\<close>\<close>
  | CreateWriteStream string       \<comment> \<open>\<open>fs.createWriteStream(path)\<close>\<close>
  | HttpGet getter string          \<comment> \<open>\<open>getter.get(url, ...)\<close>, when it makes the request\<close>
  | Chmod string nat               \<comment> \<open>\<open>fs.chmodSync(path, mode)\<close>\<close>
  | Unlink string                  \<comment> \<open>\<open>fs.unlink(path, callback)\<close>\<close>

text \<open>Whether the disk takes the whole body, and what is in the file when it does not.\<close>

fun fits :: "disk \<Rightarrow> string \<Rightarrow> bool" where
  "fits DiskOk b = True"
| "fits OpenFails b = False"
| "fits (WriteFails n) b = (length b \<le> n)"

fun written :: "disk \<Rightarrow> string \<Rightarrow> string" where
  "written (WriteFails n) b = take n b"
| "written d b = b"

text \<open>
  \<open>ensureBinary\<close> returns the file system it leaves, what it did in order, and how its
  promise settles: \<open>None\<close> when it never settles, because no callback of the source
  runs any more or an exception that nothing catches ends the launcher.
  \<^item> A file at the path resolves the promise at once.
  \<^item> Otherwise the write stream is created, which creates the file unless it cannot be
    opened, and the first request is made. An exception of that first call is thrown
    inside the executor of the promise and rejects it, with the message as it is.
  \<^item> A stream that cannot be opened emits \<open>'error'\<close> while the first request is under
    way; nothing listens, and nothing settles.
  \<^item> An error handed to \<open>onError\<close> calls \<open>fs.unlink\<close> and then rejects. The
    removal is taken to happen at the call (the source does not wait for it and ignores
    its result).
  \<^item> An exception of \<open>getter.get\<close> inside a response callback is caught by nothing,
    and a request without an answer calls nothing: the file created stays, empty.
  \<^item> A response with status 200 is piped into the file. When a write fails, or the body
    breaks off, \<open>'finish'\<close> never comes: what was written stays in the file. When
    the body ends, the file is closed and made executable (mode \<open>0o755\<close> is 493;
    not on Windows; \<open>chmodSync\<close> is taken to succeed), and the promise resolves.
\<close>

definition ensureBinary ::
  "config \<Rightarrow> net \<Rightarrow> disk \<Rightarrow> files \<Rightarrow> files \<times> fs_effect list \<times> outcome option" where
  "ensureBinary c net disk fs =
     (if fs (BINARY_PATH c) \<noteq> None
      then (fs, [FsLog (''lan-play binary found: '' @ BINARY_PATH c)], Some Resolved)
      else
        let started = [FsLog (''Downloading lan-play from '' @ BINARY_URL c @ '' ...''),
                       CreateWriteStream (BINARY_PATH c)];
            fs1 = (if disk = OpenFails then fs else fs(BINARY_PATH c \<mapsto> []));
            (urls, r) = followRedirects net (BINARY_URL c) 0;
            gets = map (\<lambda>u. HttpGet (getterFor u) u) urls
        in case r of
             Thrown d m \<Rightarrow>
               if d = 0 then (fs1, started, Some (Rejected m))
               else if disk = OpenFails then (fs1, started @ take 1 gets, None)
               else (fs1, started @ gets, None)
           | Unanswered \<Rightarrow>
               if disk = OpenFails then (fs1, started @ take 1 gets, None)
               else (fs1, started @ gets, None)
           | OnError m \<Rightarrow>
               if disk = OpenFails then (fs1, started @ take 1 gets, None)
               else (fs1(BINARY_PATH c := None),
                     started @ gets @ [Unlink (BINARY_PATH c)],
                     Some (Rejected (''Failed to download lan-play: '' @ m)))
           | OnResponse res \<Rightarrow>
               if disk = OpenFails then (fs1, started @ take 1 gets, None)
               else if \<not> fits disk (body res)
               then (fs1(BINARY_PATH c \<mapsto> written disk (body res)), started @ gets, None)
               else if \<not> ended res
               then (fs1(BINARY_PATH c \<mapsto> body res), started @ gets, None)
               else (fs1(BINARY_PATH c \<mapsto> body res),
                     started @ gets
                       @ (if PLATFORM c \<noteq> ''win32'' then [Chmod (BINARY_PATH c) 493] else [])
                       @ [FsLog ''Download complete.''],
                     Some Resolved))"

subsection \<open>Main and the event loop\<close>

text \<open>The module's top level: the initial values of the variables, at load time \<open>t0\<close>.\<close>

definition init :: "config \<Rightarrow> int \<Rightarrow> state" where
  "init c t0 =
     \<lparr>CONFIG = c, lanPlayProc = None, lanPlayRunning = False, lastHeartbeat = 0,
      hasReceivedHeartbeat = False, lastActivity = t0, shuttingDown = False,
      connectedClients = [], readyState = (\<lambda>w. 0), timers = [], clock = t0, nextPid = 0,
      exited = False, effects = []\<rparr>"

text \<open>The first lines of \<open>main\<close>, up to the \<open>await\<close>.\<close>

definition mainStart :: "state \<Rightarrow> state" where
  "mainStart s =
     (let s1 = log s (''=== lan-play-bridge-launcher v'' @ lanPlayVersion @ '' ==='');
          s2 = log s1 (''Platform: '' @ PLATFORM (CONFIG s))
      in log s2 (''Relay:    '' @ CONFIG_relay (CONFIG s)))"

text \<open>
  The rest of \<open>main\<close>, once the promise of \<open>ensureBinary\<close> has settled. \<open>hasNpcap\<close> is
  the outcome of the two \<open>fs.existsSync\<close> tests, read on Windows only. The dash of the
  last warning is U+2014.
\<close>

definition mainResume :: "state \<Rightarrow> outcome \<Rightarrow> bool \<Rightarrow> state" where
  "mainResume s r hasNpcap =
     (case r of
        Rejected m \<Rightarrow>
          (let s1 = log s (''FATAL: '' @ m);
               s2 = log s1 ''Please download lan-play manually from:'';
               s3 = log s2 ''  https://github.com/spacemeowx2/switch-lan-play/releases'';
               s4 = log s3 (''Place it in: '' @ BASE_DIR (CONFIG s))
           in (emit (Exit 1) s4)\<lparr>exited := True\<rparr>)
      | Resolved \<Rightarrow>
          (let s1 = (if PLATFORM (CONFIG s) = ''win32'' \<and> \<not> hasNpcap
                     then
                       let a = log s ''WARNING: Npcap does not appear to be installed.'';
                           b = log a ''lan-play requires Npcap to capture network packets.'';
                           c = log b ''Download from: https://npcap.com/#download'';
                           d = log c (''Install with '' @ [CHR 0x22] @ ''WinPcap API-compatible Mode''
                                     @ [CHR 0x22] @ '' checked.'');
                           e = log d []
                       in log e (''Continuing anyway '' @ [CHR 0xE2, CHR 0x80, CHR 0x94]
                                   @ '' lan-play will fail if Npcap is truly missing.'')
                     else s)
           in startShutdownMonitor (startLanPlay (startWebSocketServer s1))))"

text \<open>
  What the event loop can deliver. A new connection arrives with an OPEN socket; the
  \<open>'close'\<close> event of a socket finds it CLOSED; the \<open>'close'\<close> and \<open>'error'\<close> events
  of the subprocess find it gone; a timer fires only when it is armed and due, and is
  then disarmed. Nothing runs after \<open>process.exit\<close>.
\<close>

datatype event =
    BinaryEnsured outcome bool
  | ProcStdout "nat list"
  | ProcStderr "nat list"
  | ProcClose "int option"
  | ProcError string
  | Connection ws "string option"
  | Message ws "exn + json"
  | WsClosed ws
  | MonitorTick
  | Signal signal
  | TimerFired task

fun due :: "int \<Rightarrow> task \<Rightarrow> (int \<times> task) list \<Rightarrow> bool" where
  "due now t [] = False"
| "due now t ((d, t') # ts) = ((t' = t \<and> d \<le> now) \<or> due now t ts)"

fun disarm :: "int \<Rightarrow> task \<Rightarrow> (int \<times> task) list \<Rightarrow> (int \<times> task) list" where
  "disarm now t [] = []"
| "disarm now t ((d, t') # ts) = (if t' = t \<and> d \<le> now then ts else (d, t') # disarm now t ts)"

definition procGone :: "state \<Rightarrow> state" where
  "procGone s = s\<lparr>lanPlayProc := map_option (\<lambda>p. p\<lparr>alive := False\<rparr>) (lanPlayProc s)\<rparr>"

fun dispatch :: "state \<Rightarrow> event \<Rightarrow> state" where
  "dispatch s (BinaryEnsured r hasNpcap) = mainResume s r hasNpcap"
| "dispatch s (ProcStdout d) = onStdoutData s d"
| "dispatch s (ProcStderr d) = onStderrData s d"
| "dispatch s (ProcClose code) = onProcClose (procGone s) code"
| "dispatch s (ProcError m) = onProcError (procGone s) m"
| "dispatch s (Connection w fwd) = onConnection (s\<lparr>readyState := (readyState s)(w := 1)\<rparr>) w fwd"
| "dispatch s (Message w parsed) = onMessage s w parsed"
| "dispatch s (WsClosed w) = onWsClose (s\<lparr>readyState := (readyState s)(w := 3)\<rparr>) w"
| "dispatch s MonitorTick = monitorTick s"
| "dispatch s (Signal sg) = onSignal s sg"
| "dispatch s (TimerFired t) =
     (if due (clock s) t (timers s)
      then
        let s1 = s\<lparr>timers := disarm (clock s) t (timers s)\<rparr>
        in (case t of RestartTask \<Rightarrow> startLanPlay s1 | ExitTask \<Rightarrow> exitCallback s1)
      else s)"

text \<open>One event, delivered at time \<open>t\<close>.\<close>

definition step :: "state \<Rightarrow> int \<times> event \<Rightarrow> state" where
  "step s te = (if exited s then s else dispatch (s\<lparr>clock := fst te\<rparr>) (snd te))"

fun run :: "state \<Rightarrow> (int \<times> event) list \<Rightarrow> state" where
  "run s [] = s"
| "run s (te # tes) = run (step s te) tes"

text \<open>What a callback added to the trace.\<close>

definition emitted :: "state \<Rightarrow> state \<Rightarrow> effect list" where
  "emitted s s' = drop (length (effects s)) (effects s')"

subsection \<open>Vocabulary of the properties\<close>

text \<open>Classifying the entries of a trace.\<close>

fun isShutdownTo :: "ws \<Rightarrow> effect \<Rightarrow> bool" where
  "isShutdownTo w (Send w' (ShutdownMsg r)) = (w' = w)"
| "isShutdownTo w _ = False"

fun isKill :: "effect \<Rightarrow> bool" where
  "isKill (Kill p) = True"
| "isKill _ = False"

fun isSpawn :: "effect \<Rightarrow> bool" where
  "isSpawn (Spawn p b a) = True"
| "isSpawn _ = False"

fun isLog :: "effect \<Rightarrow> bool" where
  "isLog (Log m) = True"
| "isLog _ = False"

fun isSend :: "effect \<Rightarrow> bool" where
  "isSend (Send w m) = True"
| "isSend _ = False"

text \<open>
  What the loop of \<open>shutdown\<close> over the set does, written out: the frames and close
  calls in order, and the ready states afterwards. \<open>notifySeq\<close> follows the loop
  on any list; on a list without duplicates it is \<open>notifyEffects\<close>.
\<close>

fun notifySeq :: "(ws \<Rightarrow> nat) \<Rightarrow> ws list \<Rightarrow> effect list" where
  "notifySeq rs [] = []"
| "notifySeq rs (w # ws) =
     (if rs w = 1 then [Send w (ShutdownMsg ''timeout'')] else []) @ [Close w None]
       @ notifySeq (rs(w := (if rs w = 1 then 2 else rs w))) ws"

fun closingSeq :: "(ws \<Rightarrow> nat) \<Rightarrow> ws list \<Rightarrow> ws \<Rightarrow> nat" where
  "closingSeq rs [] = rs"
| "closingSeq rs (w # ws) = closingSeq (rs(w := (if rs w = 1 then 2 else rs w))) ws"

definition notifyEffects :: "(ws \<Rightarrow> nat) \<Rightarrow> ws list \<Rightarrow> effect list" where
  "notifyEffects rs ws =
     concat (map (\<lambda>w. (if rs w = 1 then [Send w (ShutdownMsg ''timeout'')] else [])
                        @ [Close w None]) ws)"

definition closing :: "(ws \<Rightarrow> nat) \<Rightarrow> ws list \<Rightarrow> ws \<Rightarrow> nat" where
  "closing rs ws = (\<lambda>w. if w \<in> set ws \<and> rs w = 1 then 2 else rs w)"

definition killEffects :: "proc option \<Rightarrow> effect list" where
  "killEffects po =
     (case po of Some p \<Rightarrow> if \<not> killed p then [Kill (pid p)] else [] | None \<Rightarrow> [])"

definition killedAfter :: "proc option \<Rightarrow> proc option" where
  "killedAfter po =
     (case po of
        Some p \<Rightarrow> Some (if \<not> killed p then p\<lparr>killed := (killed p \<or> alive p)\<rparr> else p)
      | None \<Rightarrow> None)"

text \<open>The status frames of one \<open>broadcastStatus\<close>.\<close>

definition statusFrames :: "state \<Rightarrow> effect list" where
  "statusFrames s =
     map (\<lambda>w. Send w (StatusMsg (getStatus s)))
       (filter (\<lambda>w. readyState s w = 1) (connectedClients s))"

text \<open>Client messages that are heartbeats, and events that carry one.\<close>

definition isHeartbeatMsg :: "exn + json \<Rightarrow> bool" where
  "isHeartbeatMsg parsed =
     (case parsed of
        Inl e \<Rightarrow> False
      | Inr m \<Rightarrow> get_type m = Inr (Some (JString ''heartbeat'')))"

fun isHeartbeat :: "event \<Rightarrow> bool" where
  "isHeartbeat (Message w parsed) = isHeartbeatMsg parsed"
| "isHeartbeat _ = False"

text \<open>
  Events that are neither activity (a connection, a client message, subprocess output)
  nor a start of the subprocess.
\<close>

fun silent :: "event \<Rightarrow> bool" where
  "silent (ProcClose code) = True"
| "silent (ProcError m) = True"
| "silent (WsClosed w) = True"
| "silent MonitorTick = True"
| "silent (Signal sg) = True"
| "silent (TimerFired ExitTask) = True"
| "silent _ = False"

text \<open>A response that redirects to \<open>l\<close>.\<close>

fun redirectsTo :: "http_result \<Rightarrow> string \<Rightarrow> bool" where
  "redirectsTo (Response res) l = (redirectTarget res = Some l)"
| "redirectsTo (NetError m) l = False"
| "redirectsTo (GetThrows m) l = False"
| "redirectsTo NoAnswer l = False"

text \<open>The code points of a text written in ASCII.\<close>

definition ascii :: "string \<Rightarrow> nat list" where
  "ascii s = map of_char s"

subsection \<open>Concrete runs\<close>

definition demoConfig :: config where
  "demoConfig =
     \<lparr>CONFIG_relay = ''example.com:11451'', PLATFORM = ''linux'', BASE_DIR = ''/opt/launcher''\<rparr>"

text \<open>The launcher ten milliseconds after load, with the subprocess started and two browsers connected.\<close>

definition demoState :: state where
  "demoState =
     run (mainStart (init demoConfig 0))
       [(10, BinaryEnsured Resolved True), (20, Connection 1 None), (30, Connection 2 None)]"

text \<open>The same launcher after browser 1 has sent one heartbeat, at time 40.\<close>

definition hbState :: state where
  "hbState = run demoState [(40, Message 1 (Inr (JObject [(''type'', JString ''heartbeat'')])))]"

text \<open>
  The subprocess exits at time 1000, which arms the restart for time 4000; the operator
  interrupts the launcher at time 3500, which arms the exit for time 4500.
\<close>

definition raceState :: state where
  "raceState = run demoState [(1000, ProcClose (Some 1)), (3500, Signal SIGINT)]"

text \<open>
  Networks: one that answers 404, one that always redirects, one whose request fails,
  one that redirects twice and then answers 410, one that answers 302 with an empty
  \<open>Location\<close>, one that serves the file and closes the connection after two of its
  three bytes, one that serves the whole file, and one that redirects to a relative
  reference, on which \<open>http.get\<close> throws.
\<close>

definition net404 :: net where
  "net404 = (\<lambda>d u. Response \<lparr>statusCode = 404, location = None, body = [], ended = True\<rparr>)"

definition netLoop :: net where
  "netLoop = (\<lambda>d u. Response \<lparr>statusCode = 302, location = Some ''https://cdn.example/a'', body = [], ended = True\<rparr>)"

definition netDown :: net where
  "netDown = (\<lambda>d u. NetError ''getaddrinfo ENOTFOUND github.com'')"



definition netCutShort :: net where
  "netCutShort =
     (\<lambda>d u. Response \<lparr>statusCode = 200, location = None, body = ''EL'', ended = False\<rparr>)"

definition netServes :: net where
  "netServes =
     (\<lambda>d u. Response \<lparr>statusCode = 200, location = None, body = ''ELF'', ended = True\<rparr>)"

definition netRelative :: net where
  "netRelative =
     (\<lambda>d u. if d = 0
             then Response \<lparr>statusCode = 302, location = Some ''/releases/lan-play-linux'',
                             body = [], ended = True\<rparr>
             else GetThrows ''Invalid URL'')"


text \<open>The inactivity trigger fired between two states: its line was logged and shutdown began.\<close>

definition inactivityFired :: "state \<Rightarrow> state \<Rightarrow> bool" where
  "inactivityFired s s' = (Log inactivityTimeoutLog \<in> set (emitted s s') \<and> shuttingDown s')"

text \<open>A run without any heartbeat, with ticks long after the start, and a run of silent events.\<close>

definition noHeartbeatRun :: "(int \<times> event) list" where
  "noHeartbeatRun =
     [(10, BinaryEnsured Resolved True), (20, Connection 1 None),
      (25, Message 1 (Inr (JObject [(''type'', JString ''status'')]))),
      (100000, MonitorTick), (100010, ProcStdout (ascii ''Server IP: 10.13.37.1'')),
      (600000, MonitorTick)]"

definition silentRun :: "(int \<times> event) list" where
  "silentRun = [(5000, MonitorTick), (7000, ProcClose (Some 1)), (8000, WsClosed 2), (9000, MonitorTick)]"

definition earlyRun :: "(int \<times> event) list" where
  "earlyRun =
     [(10, BinaryEnsured Resolved True), (20, Connection 1 None), (300000, MonitorTick),
      (600000, MonitorTick)]"

section \<open>Helper lemmas\<close>

subsection \<open>The loops written out\<close>

lemma heartbeatTimeoutLog_eq: "heartbeatTimeoutLog = ''No heartbeat for 30s. Browser tab likely closed.''"
  by (simp add: heartbeatTimeoutLog_def heartbeatTimeoutMs_def string_of_nat.simps digit_char_def)

lemma inactivityTimeoutLog_eq: "inactivityTimeoutLog = ''No activity for 10 minutes.''"
  by (simp add: inactivityTimeoutLog_def inactivityTimeoutMs_def string_of_nat.simps digit_char_def)

lemma broadcast_fold:
  "fold (\<lambda>w s'. if readyState s' w = 1 then emit (Send w m) s' else s') ws s =
     s\<lparr>effects := effects s @ map (\<lambda>w. Send w m) (filter (\<lambda>w. readyState s w = 1) ws)\<rparr>"
  by (induction ws arbitrary: s) (simp_all add: emit_def)

lemma broadcastStatus_eq: "broadcastStatus s = s\<lparr>effects := effects s @ statusFrames s\<rparr>"
  unfolding broadcastStatus_def Let_def statusFrames_def by (rule broadcast_fold)

lemma notify_one:
  "ws_close (wsSend s w m) w c =
     s\<lparr>readyState := (readyState s)(w := (if readyState s w = 1 then 2 else readyState s w)),
       effects := effects s @ (if readyState s w = 1 then [Send w m] else []) @ [Close w c]\<rparr>"
  by (simp add: ws_close_def wsSend_def emit_def)

lemma notify_fold:
  "fold (\<lambda>w s'. ws_close (wsSend s' w (ShutdownMsg ''timeout'')) w None) ws s =
     s\<lparr>readyState := closingSeq (readyState s) ws,
       effects := effects s @ notifySeq (readyState s) ws\<rparr>"
proof (induction ws arbitrary: s)
  case Nil
  show ?case by simp
next
  case (Cons w ws)
  let ?F = "\<lambda>w s'. ws_close (wsSend s' w (ShutdownMsg ''timeout'')) w None"
  let ?s1 = "ws_close (wsSend s w (ShutdownMsg ''timeout'')) w None"
  have "fold ?F (w # ws) s = fold ?F ws ?s1"
    by simp
  also have "\<dots> = ?s1\<lparr>readyState := closingSeq (readyState ?s1) ws,
                        effects := effects ?s1 @ notifySeq (readyState ?s1) ws\<rparr>"
    by (rule Cons.IH)
  also have "\<dots> = s\<lparr>readyState := closingSeq (readyState s) (w # ws),
                       effects := effects s @ notifySeq (readyState s) (w # ws)\<rparr>"
    unfolding notify_one by simp
  finally show ?case .
qed

lemma notifySeq_distinct: "distinct ws \<Longrightarrow> notifySeq rs ws = notifyEffects rs ws"
proof (induction ws arbitrary: rs)
  case Nil
  show ?case by (simp add: notifyEffects_def)
next
  case (Cons w ws)
  have nin: "w \<notin> set ws" and d: "distinct ws" using Cons.prems by simp_all
  have "notifyEffects (rs(w := (if rs w = 1 then 2 else rs w))) ws = notifyEffects rs ws"
    using nin unfolding notifyEffects_def
    by (intro arg_cong[where f=concat] map_cong) auto
  then show ?case using Cons.IH[OF d] by (simp add: notifyEffects_def)
qed

lemma closingSeq_distinct: "distinct ws \<Longrightarrow> closingSeq rs ws = closing rs ws"
proof (induction ws arbitrary: rs)
  case Nil
  show ?case by (simp add: closing_def)
next
  case (Cons w ws)
  then show ?case by (auto simp: closing_def fun_eq_iff)
qed

lemma shutdown_seq:
  "\<not> shuttingDown s \<Longrightarrow>
   shutdown s =
     s\<lparr>shuttingDown := True,
       readyState := closingSeq (readyState s) (connectedClients s),
       lanPlayProc := killedAfter (lanPlayProc s),
       timers := timers s @ [(clock s + 1000, ExitTask)],
       effects := effects s @ [Log ''Shutting down...'']
                   @ notifySeq (readyState s) (connectedClients s)
                   @ killEffects (lanPlayProc s) @ [SetTimeout ExitTask 1000]\<rparr>"
  by (simp add: shutdown_def Let_def log_def emit_def notify_fold kill_def setTimeout_def
        killEffects_def killedAfter_def split: option.splits)

lemma shutdown_eq:
  assumes "\<not> shuttingDown s" and "distinct (connectedClients s)"
  shows "shutdown s =
     s\<lparr>shuttingDown := True,
       readyState := closing (readyState s) (connectedClients s),
       lanPlayProc := killedAfter (lanPlayProc s),
       timers := timers s @ [(clock s + 1000, ExitTask)],
       effects := effects s @ [Log ''Shutting down...'']
                   @ notifyEffects (readyState s) (connectedClients s)
                   @ killEffects (lanPlayProc s) @ [SetTimeout ExitTask 1000]\<rparr>"
  unfolding shutdown_seq[OF assms(1)] notifySeq_distinct[OF assms(2)] closingSeq_distinct[OF assms(2)]
  by (rule refl)

lemma shutdown_noop: "shuttingDown s \<Longrightarrow> shutdown s = s"
  by (simp add: shutdown_def)

lemma notifySeq_filter:
  "(\<And>w m. \<not> P (Send w m)) \<Longrightarrow> (\<And>w c. \<not> P (Close w c)) \<Longrightarrow> filter P (notifySeq rs ws) = []"
  by (induction ws arbitrary: rs) simp_all

lemma statusFrames_filter:
  "(\<And>w m. \<not> P (Send w (StatusMsg m))) \<Longrightarrow> filter P (statusFrames s) = []"
  by (simp add: statusFrames_def)

lemma demoState_fields:
  "shuttingDown demoState = False"
  "connectedClients demoState = [1, 2]"
  "lanPlayProc demoState = Some \<lparr>pid = 0, killed = False, alive = True\<rparr>"
  "readyState demoState = (\<lambda>w. 0)(1 := 1, 2 := 1)"
  "hasReceivedHeartbeat demoState = False"
  "lastActivity demoState = 30"
  "lastHeartbeat demoState = 0"
  "clock demoState = 30"
  "timers demoState = []"
  "exited demoState = False"
  "lanPlayRunning demoState = True"
  "CONFIG demoState = demoConfig"
  "nextPid demoState = 1"
  by (simp_all add: demoState_def step_def init_def mainStart_def mainResume_def log_def emit_def
       startWebSocketServer_def startLanPlay_def startShutdownMonitor_def broadcastStatus_eq
       onConnection_def set_add_def wsSend_def Let_def demoConfig_def statusFrames_def)

subsection \<open>The concrete runs, evaluated\<close>

lemma hbState_fields:
  "shuttingDown hbState = False"
  "connectedClients hbState = [1, 2]"
  "lanPlayProc hbState = Some \<lparr>pid = 0, killed = False, alive = True\<rparr>"
  "readyState hbState = (\<lambda>w. 0)(1 := 1, 2 := 1)"
  "hasReceivedHeartbeat hbState = True"
  "lastActivity hbState = 40"
  "lastHeartbeat hbState = 40"
  "exited hbState = False"
  "emitted demoState hbState = [Send 1 HeartbeatAck]"
  by (simp_all add: hbState_def step_def onMessage_def wsSend_def emit_def demoState_fields Let_def
        emitted_def)

lemma raceState_fields:
  "shuttingDown raceState = True"
  "exited raceState = False"
  "timers raceState = [(4000, RestartTask), (4500, ExitTask)]"
  "lanPlayRunning raceState = False"
  "nextPid raceState = 1"
  "CONFIG raceState = demoConfig"
  "connectedClients raceState = [1, 2]"
  "readyState raceState = (\<lambda>w. 0)(1 := 2, 2 := 2)"
  by (simp_all add: raceState_def step_def onProcClose_def procGone_def onSignal_def
        demoState_fields log_def emit_def broadcastStatus_eq statusFrames_def setTimeout_def
        shutdown_seq Let_def killedAfter_def fun_eq_iff)

subsection \<open>Following redirects\<close>

lemma follow_end:
  assumes "d \<le> 5"
  shows "followRedirects net url d =
     (case net d url of
        GetThrows m \<Rightarrow> ([], Thrown d m)
      | NoAnswer \<Rightarrow> ([url], Unanswered)
      | NetError m \<Rightarrow> ([url], OnError m)
      | Response res \<Rightarrow>
          (case redirectTarget res of
             Some l \<Rightarrow> apfst ((#) url) (followRedirects net l (d + 1))
           | None \<Rightarrow> if statusCode res \<noteq> 200
                     then ([url], OnError (''HTTP '' @ string_of_nat (statusCode res)))
                     else ([url], OnResponse res)))"
  using assms by (subst followRedirects.simps) simp

lemma follow_too_deep:
  "d > 5 \<Longrightarrow> followRedirects net url d = ([], OnError ''Too many redirects'')"
  by (subst followRedirects.simps) simp

lemma follow_chain:
  assumes "\<forall>i<k. redirectsTo (net (d + i) (u i)) (u (Suc i))" and "d + k \<le> 6"
  shows "followRedirects net (u 0) d
           = apfst ((@) (map u [0..<k])) (followRedirects net (u k) (d + k))"
  using assms
proof (induction k arbitrary: d u)
  case 0
  show ?case by (cases "followRedirects net (u 0) d") simp
next
  case (Suc k)
  have d5: "d \<le> 5" using Suc.prems(2) by simp
  have "redirectsTo (net (d + 0) (u 0)) (u (Suc 0))" using Suc.prems(1) by blast
  then obtain r where r: "net d (u 0) = Response r" "redirectTarget r = Some (u (Suc 0))"
    by (cases "net d (u 0)") simp_all
  have step: "followRedirects net (u 0) d
                = apfst ((#) (u 0)) (followRedirects net (u (Suc 0)) (Suc d))"
    using r by (simp add: follow_end[OF d5])
  have ch: "\<forall>i<k. redirectsTo (net (Suc d + i) ((u \<circ> Suc) i)) ((u \<circ> Suc) (Suc i))"
    using Suc.prems(1) by auto
  have le: "Suc d + k \<le> 6" using Suc.prems(2) by simp
  have ih: "followRedirects net ((u \<circ> Suc) 0) (Suc d)
              = apfst ((@) (map (u \<circ> Suc) [0..<k])) (followRedirects net ((u \<circ> Suc) k) (Suc d + k))"
    by (rule Suc.IH[OF ch le])
  have m: "map u [0..<Suc k] = u 0 # map (u \<circ> Suc) [0..<k]"
    by (simp add: upt_conv_Cons map_Suc_upt[symmetric] del: upt_Suc)
  show ?case
    unfolding step using ih
    by (cases "followRedirects net (u (Suc k)) (Suc (d + k))") (simp add: m del: upt_Suc)
qed

lemma follow_ok:
  assumes "\<forall>i<k. redirectsTo (net i (u i)) (u (Suc i))" and "k \<le> 5"
    and "net k (u k) = Response r" and "redirectTarget r = None" and "statusCode r = 200"
  shows "followRedirects net (u 0) 0 = (map u [0..<Suc k], OnResponse r)"
proof -
  have "followRedirects net (u 0) 0 = apfst ((@) (map u [0..<k])) (followRedirects net (u k) (0 + k))"
    by (rule follow_chain) (use assms in simp_all)
  then show ?thesis using assms by (simp add: follow_end)
qed


lemma follow_net_error:
  assumes "\<forall>i<k. redirectsTo (net i (u i)) (u (Suc i))" and "k \<le> 5"
    and "net k (u k) = NetError m"
  shows "followRedirects net (u 0) 0 = (map u [0..<Suc k], OnError m)"
proof -
  have "followRedirects net (u 0) 0 = apfst ((@) (map u [0..<k])) (followRedirects net (u k) (0 + k))"
    by (rule follow_chain) (use assms in simp_all)
  then show ?thesis using assms by (simp add: follow_end)
qed



lemma follow_failure_kinds:
  "followRedirects net url d = (urls, OnError e) \<Longrightarrow>
     e = ''Too many redirects''
     \<or> (\<exists>d' u r. d' \<le> 5 \<and> net d' u = Response r \<and> redirectTarget r = None
           \<and> statusCode r \<noteq> 200 \<and> e = ''HTTP '' @ string_of_nat (statusCode r))
     \<or> (\<exists>d' u. d' \<le> 5 \<and> net d' u = NetError e)"
proof (induction net url d arbitrary: urls rule: followRedirects.induct)
  case (1 net url depth)
  show ?case
  proof (cases "depth > 5")
    case True
    then show ?thesis using "1.prems" by (simp add: follow_too_deep)
  next
    case False
    then have le: "depth \<le> 5" by simp
    show ?thesis
    proof (cases "net depth url")
      case (NetError m)
      then have "e = m" using "1.prems" le by (simp add: follow_end)
      then show ?thesis using NetError le by blast
    next
      case (GetThrows m)
      then show ?thesis using "1.prems" le by (simp add: follow_end)
    next
      case NoAnswer
      then show ?thesis using "1.prems" le by (simp add: follow_end)
    next
      case (Response res)
      show ?thesis
      proof (cases "redirectTarget res")
        case None
        then have "statusCode res \<noteq> 200 \<and> e = ''HTTP '' @ string_of_nat (statusCode res)"
          using "1.prems" le Response by (simp add: follow_end split: if_splits)
        then show ?thesis using Response None le by blast
      next
        case (Some l)
        obtain us where "followRedirects net l (depth + 1) = (us, OnError e)"
          using "1.prems" le Response Some
          by (cases "followRedirects net l (depth + 1)") (simp add: follow_end)
        then show ?thesis using "1.IH"[OF False Response Some] by blast
      qed
    qed
  qed
qed

subsection \<open>The ends of a download\<close>


lemma ensureBinary_ok:
  "fs (BINARY_PATH c) = None \<Longrightarrow> followRedirects net (BINARY_URL c) 0 = (urls, OnResponse res) \<Longrightarrow>
   disk \<noteq> OpenFails \<Longrightarrow> fits disk (body res) \<Longrightarrow> ended res \<Longrightarrow>
   ensureBinary c net disk fs =
     (fs(BINARY_PATH c \<mapsto> body res),
      [FsLog (''Downloading lan-play from '' @ BINARY_URL c @ '' ...''),
       CreateWriteStream (BINARY_PATH c)] @ map (\<lambda>u. HttpGet (getterFor u) u) urls
        @ (if PLATFORM c \<noteq> ''win32'' then [Chmod (BINARY_PATH c) 493] else [])
        @ [FsLog ''Download complete.''],
      Some Resolved)"
  by (simp add: ensureBinary_def)


lemma ensureBinary_stalled:
  "fs (BINARY_PATH c) = None \<Longrightarrow> followRedirects net (BINARY_URL c) 0 = (urls, OnResponse res) \<Longrightarrow>
   disk \<noteq> OpenFails \<Longrightarrow> \<not> fits disk (body res) \<or> \<not> ended res \<Longrightarrow>
   ensureBinary c net disk fs =
     (fs(BINARY_PATH c \<mapsto> (if fits disk (body res) then body res else written disk (body res))),
      [FsLog (''Downloading lan-play from '' @ BINARY_URL c @ '' ...''),
       CreateWriteStream (BINARY_PATH c)] @ map (\<lambda>u. HttpGet (getterFor u) u) urls,
      None)"
  by (auto simp: ensureBinary_def)

lemma ensureBinary_thrown:
  "fs (BINARY_PATH c) = None \<Longrightarrow> followRedirects net (BINARY_URL c) 0 = (urls, Thrown d m) \<Longrightarrow>
   disk \<noteq> OpenFails \<Longrightarrow> 0 < d \<Longrightarrow>
   ensureBinary c net disk fs =
     (fs(BINARY_PATH c \<mapsto> []),
      [FsLog (''Downloading lan-play from '' @ BINARY_URL c @ '' ...''),
       CreateWriteStream (BINARY_PATH c)] @ map (\<lambda>u. HttpGet (getterFor u) u) urls,
      None)"
  by (simp add: ensureBinary_def)

lemma demo_paths:
  "BINARY_PATH demoConfig = ''/opt/launcher/lan-play-linux''"
  "BINARY_URL demoConfig = ''https://github.com/spacemeowx2/switch-lan-play/releases/download/v0.2.3/lan-play-linux''"
  "getterFor (BINARY_URL demoConfig) = Https"
  by (simp_all add: BINARY_PATH_def pathSep_def BINARY_URL_def BINARY_NAME_def demoConfig_def
        lanPlayVersion_def getterFor_def)

lemma follow_net404:
  "followRedirects net404 (BINARY_URL demoConfig) 0 = ([BINARY_URL demoConfig], OnError ''HTTP 404'')"
  by (simp add: follow_end net404_def redirectTarget_def string_of_nat.simps digit_char_def)

lemma follow_netDown:
  "followRedirects netDown (BINARY_URL demoConfig) 0
     = ([BINARY_URL demoConfig], OnError ''getaddrinfo ENOTFOUND github.com'')"
  by (simp add: follow_end netDown_def)

lemma follow_netLoop:
  "followRedirects netLoop (BINARY_URL demoConfig) 0
     = ([BINARY_URL demoConfig, ''https://cdn.example/a'', ''https://cdn.example/a'',
         ''https://cdn.example/a'', ''https://cdn.example/a'', ''https://cdn.example/a''],
        OnError ''Too many redirects'')"
  by (simp add: follow_end follow_too_deep netLoop_def redirectTarget_def)


lemma follow_netCutShort:
  "followRedirects netCutShort (BINARY_URL demoConfig) 0
     = ([BINARY_URL demoConfig],
        OnResponse \<lparr>statusCode = 200, location = None, body = ''EL'', ended = False\<rparr>)"
  by (simp add: follow_end netCutShort_def redirectTarget_def)

lemma follow_netServes:
  "followRedirects netServes (BINARY_URL demoConfig) 0
     = ([BINARY_URL demoConfig],
        OnResponse \<lparr>statusCode = 200, location = None, body = ''ELF'', ended = True\<rparr>)"
  by (simp add: follow_end netServes_def redirectTarget_def)

lemma follow_netRelative:
  "followRedirects netRelative (BINARY_URL demoConfig) 0
     = ([BINARY_URL demoConfig], Thrown 1 ''Invalid URL'')"
  by (simp add: follow_end netRelative_def redirectTarget_def)

lemma utf8_ascii: "\<forall>c\<in>set s. of_char c < (128::nat) \<Longrightarrow> utf8 (ascii s) = s"
  by (induction s) (simp_all add: utf8_def ascii_def utf8_char_def)

subsection \<open>Trimming and printing, evaluated\<close>

lemma trim_examples:
  "trim [0x0A] = []"
  "trim [0xA0, 0x2028] = []"
  "trim (ascii ''bind failed'') = ascii ''bind failed''"
  "trim [0xA0, 0x48, 0x69, 0x2028, 0x0A] = [0x48, 0x69]"
  "trim [0xFFFD, 0x41, 0x0D, 0x0A] = [0xFFFD, 0x41]"
  by (simp_all add: trim_def is_ws_def ascii_def)

lemma utf8_bind_failed: "utf8 (ascii ''bind failed'') = ''bind failed''"
  by (rule utf8_ascii) simp

lemma ascii_not_Nil: "ascii (c # s) \<noteq> []"
  by (simp add: ascii_def)

lemma utf8_examples:
  "utf8 [0x48, 0x69] = ''Hi''"
  "utf8 [0xFFFD, 0x41] = [CHR 0xEF, CHR 0xBF, CHR 0xBD, CHR ''A'']"
  by (simp_all add: utf8_def utf8_char_def char_of_def bit_iff_odd)

subsection \<open>Events, one at a time\<close>

lemma shutdown_unfold:
  "shutdown s =
     (if shuttingDown s then s
      else s\<lparr>shuttingDown := True,
             readyState := closingSeq (readyState s) (connectedClients s),
             lanPlayProc := killedAfter (lanPlayProc s),
             timers := timers s @ [(clock s + 1000, ExitTask)],
             effects := effects s @ [Log ''Shutting down...'']
                         @ notifySeq (readyState s) (connectedClients s)
                         @ killEffects (lanPlayProc s) @ [SetTimeout ExitTask 1000]\<rparr>)"
  by (simp add: shutdown_seq shutdown_noop)

lemma Log_notin_notifySeq: "Log m \<notin> set (notifySeq rs ws)"
  by (induction ws arbitrary: rs) simp_all

lemma Log_notin_statusFrames: "Log m \<notin> set (statusFrames s)"
  by (auto simp: statusFrames_def)

lemma Log_notin_killEffects: "Log m \<notin> set (killEffects po)"
  by (simp add: killEffects_def split: option.splits)

lemmas Log_notin = Log_notin_notifySeq Log_notin_statusFrames Log_notin_killEffects

lemmas handler_defs =
  step_def mainResume_def startWebSocketServer_def startShutdownMonitor_def startLanPlay_def
  onStdoutData_def onStderrData_def onProcClose_def onProcError_def procGone_def
  onConnection_def onWsClose_def monitorTick_def onSignal_def exitCallback_def
  log_def emit_def wsSend_def ws_close_def setTimeout_def broadcastStatus_eq shutdown_unfold
  Let_def

lemma onMessage_not_heartbeat:
  "\<not> isHeartbeatMsg parsed \<Longrightarrow>
   hasReceivedHeartbeat (onMessage s w parsed) = hasReceivedHeartbeat s
   \<and> filter isLog (effects (onMessage s w parsed)) = filter isLog (effects s)"
  by (auto simp: onMessage_def isHeartbeatMsg_def wsSend_def emit_def Let_def split: sum.splits)

lemma onMessage_logs:
  "filter isLog (effects (onMessage s w parsed)) = filter isLog (effects s)"
  by (auto simp: onMessage_def wsSend_def emit_def Let_def split: sum.splits)

lemma onMessage_lastActivity: "lastActivity (onMessage s w parsed) = clock s"
  by (auto simp: onMessage_def wsSend_def emit_def Let_def split: sum.splits)

lemma Log_in_filter: "Log m \<in> set es \<longleftrightarrow> Log m \<in> set (filter isLog es)"
  by auto

lemma quiet_step:
  assumes "\<not> hasReceivedHeartbeat s" and "Log heartbeatTimeoutLog \<notin> set (effects s)"
    and "\<not> isHeartbeat e"
  shows "\<not> hasReceivedHeartbeat (step s (t, e))
       \<and> Log heartbeatTimeoutLog \<notin> set (effects (step s (t, e)))"
proof (cases e)
  case (Message w parsed)
  then have nh: "\<not> isHeartbeatMsg parsed" using assms(3) by simp
  have "Log heartbeatTimeoutLog \<notin> set (filter isLog (effects s))" using assms(2) by simp
  then show ?thesis
    using assms(1) Message onMessage_not_heartbeat[OF nh, of "s\<lparr>clock := t\<rparr>" w]
    by (simp add: step_def Log_in_filter[of _ "effects (onMessage _ _ _)"])
next
  case (BinaryEnsured r n)
  then show ?thesis using assms(1,2)
    by (cases r) (simp_all add: handler_defs Log_notin heartbeatTimeoutLog_eq)
next
  case (ProcStdout d)
  then show ?thesis using assms(1,2)
    by (simp add: handler_defs Log_notin heartbeatTimeoutLog_eq)
next
  case (ProcStderr d)
  then show ?thesis using assms(1,2)
    by (simp add: handler_defs Log_notin heartbeatTimeoutLog_eq)
next
  case (ProcClose c)
  then show ?thesis using assms(1,2)
    by (simp add: handler_defs Log_notin heartbeatTimeoutLog_eq)
next
  case (ProcError m)
  then show ?thesis using assms(1,2)
    by (simp add: handler_defs Log_notin heartbeatTimeoutLog_eq)
next
  case (Connection w f)
  then show ?thesis using assms(1,2)
    by (simp add: handler_defs Log_notin heartbeatTimeoutLog_eq)
next
  case (WsClosed w)
  then show ?thesis using assms(1,2)
    by (simp add: handler_defs Log_notin heartbeatTimeoutLog_eq)
next
  case MonitorTick
  then show ?thesis using assms(1,2)
    by (simp add: handler_defs Log_notin heartbeatTimeoutLog_eq inactivityTimeoutLog_eq)
next
  case (Signal sg)
  then show ?thesis using assms(1,2)
    by (cases sg) (simp_all add: handler_defs Log_notin heartbeatTimeoutLog_eq)
next
  case (TimerFired k)
  then show ?thesis using assms(1,2)
    by (cases k) (simp_all add: handler_defs Log_notin heartbeatTimeoutLog_eq)
qed

lemma silent_step:
  assumes "silent e"
  shows "lastActivity (step s (t, e)) = lastActivity s
       \<and> hasReceivedHeartbeat (step s (t, e)) = hasReceivedHeartbeat s"
proof (cases e)
  case (TimerFired k)
  then have "k = ExitTask" using assms by (cases k) simp_all
  then show ?thesis using TimerFired by (simp add: handler_defs)
next
  case (Signal sg)
  then show ?thesis by (cases sg) (simp_all add: handler_defs)
qed (use assms in \<open>simp_all add: handler_defs\<close>)

lemma silent_run:
  "\<forall>te\<in>set tes. silent (snd te) \<Longrightarrow>
   lastActivity (run s tes) = lastActivity s
   \<and> hasReceivedHeartbeat (run s tes) = hasReceivedHeartbeat s"
proof (induction tes arbitrary: s)
  case Nil
  show ?case by simp
next
  case (Cons te tes)
  obtain t e where te: "te = (t, e)" by (cases te)
  have "silent e" using Cons.prems te by simp
  then have "lastActivity (step s (t, e)) = lastActivity s
       \<and> hasReceivedHeartbeat (step s (t, e)) = hasReceivedHeartbeat s"
    by (rule silent_step)
  then show ?case using Cons.IH[of "step s te"] Cons.prems te by simp
qed

lemma tick_inactivity:
  assumes "\<not> shuttingDown s" and "\<not> hasReceivedHeartbeat s" and "\<not> exited s"
  shows "inactivityFired s (step s (t, MonitorTick)) \<longleftrightarrow> t - lastActivity s > inactivityTimeoutMs"
  using assms
  by (simp add: inactivityFired_def emitted_def handler_defs inactivityTimeoutLog_eq)

lemma startLanPlay_lastActivity:
  "lastActivity (startLanPlay s) = clock s \<and> hasReceivedHeartbeat (startLanPlay s) = hasReceivedHeartbeat s"
  by (simp add: handler_defs)

lemma early_step:
  assumes "t0 \<le> lastActivity s" and "Log inactivityTimeoutLog \<notin> set (effects s)"
    and "t0 \<le> t" and "t \<le> t0 + inactivityTimeoutMs"
  shows "t0 \<le> lastActivity (step s (t, e))
       \<and> Log inactivityTimeoutLog \<notin> set (effects (step s (t, e)))"
proof (cases e)
  case (Message w parsed)
  have "Log inactivityTimeoutLog \<notin> set (filter isLog (effects s))" using assms(2) by simp
  then show ?thesis
    using assms(1,3) Message onMessage_logs[of "s\<lparr>clock := t\<rparr>" w parsed]
      onMessage_lastActivity[of "s\<lparr>clock := t\<rparr>" w parsed]
    by (simp add: step_def Log_in_filter[of _ "effects (onMessage _ _ _)"])
next
  case (BinaryEnsured r n)
  then show ?thesis using assms
    by (cases r) (simp_all add: handler_defs Log_notin inactivityTimeoutLog_eq)
next
  case (ProcStdout d)
  then show ?thesis using assms
    by (simp add: handler_defs Log_notin inactivityTimeoutLog_eq)
next
  case (ProcStderr d)
  then show ?thesis using assms
    by (simp add: handler_defs Log_notin inactivityTimeoutLog_eq)
next
  case (ProcClose c)
  then show ?thesis using assms
    by (simp add: handler_defs Log_notin inactivityTimeoutLog_eq)
next
  case (ProcError m)
  then show ?thesis using assms
    by (simp add: handler_defs Log_notin inactivityTimeoutLog_eq)
next
  case (Connection w f)
  then show ?thesis using assms
    by (simp add: handler_defs Log_notin inactivityTimeoutLog_eq)
next
  case (WsClosed w)
  then show ?thesis using assms
    by (simp add: handler_defs Log_notin inactivityTimeoutLog_eq)
next
  case MonitorTick
  then show ?thesis using assms
    by (simp add: handler_defs Log_notin heartbeatTimeoutLog_eq inactivityTimeoutLog_eq)
next
  case (Signal sg)
  then show ?thesis using assms
    by (cases sg) (simp_all add: handler_defs Log_notin inactivityTimeoutLog_eq)
next
  case (TimerFired k)
  then show ?thesis using assms
    by (cases k) (simp_all add: handler_defs Log_notin inactivityTimeoutLog_eq)
qed

lemma early_run:
  assumes "t0 \<le> lastActivity s" and "Log inactivityTimeoutLog \<notin> set (effects s)"
    and "\<forall>te\<in>set evs. t0 \<le> fst te \<and> fst te \<le> t0 + inactivityTimeoutMs"
  shows "t0 \<le> lastActivity (run s evs)
       \<and> Log inactivityTimeoutLog \<notin> set (effects (run s evs))"
  using assms
proof (induction evs arbitrary: s)
  case Nil
  then show ?case by simp
next
  case (Cons te evs)
  obtain t e where te: "te = (t, e)" by (cases te)
  have "t0 \<le> t" and "t \<le> t0 + inactivityTimeoutMs" using Cons.prems(3) te by simp_all
  then have "t0 \<le> lastActivity (step s (t, e))
       \<and> Log inactivityTimeoutLog \<notin> set (effects (step s (t, e)))"
    using Cons.prems(1,2) by (intro early_step)
  then show ?case using Cons.IH[of "step s te"] Cons.prems(3) te by simp
qed

lemma onMessage_frame:
  "shuttingDown (onMessage s w parsed) = shuttingDown s
   \<and> connectedClients (onMessage s w parsed) = connectedClients s
   \<and> filter isKill (effects (onMessage s w parsed)) = filter isKill (effects s)
   \<and> filter (isShutdownTo v) (effects (onMessage s w parsed)) = filter (isShutdownTo v) (effects s)"
  by (auto simp: onMessage_def wsSend_def emit_def Let_def split: sum.splits)

lemma after_shutdown_step:
  assumes "shuttingDown s"
  shows "shuttingDown (step s te)
       \<and> filter isKill (effects (step s te)) = filter isKill (effects s)
       \<and> filter (isShutdownTo v) (effects (step s te)) = filter (isShutdownTo v) (effects s)"
proof -
  obtain t e where te: "te = (t, e)" by (cases te)
  have sf: "filter isKill (statusFrames x) = []" "filter (isShutdownTo v) (statusFrames x) = []" for x
    by (simp_all add: statusFrames_filter)
  show ?thesis
  proof (cases e)
    case (Message w parsed)
    then show ?thesis
      using assms te onMessage_frame[of "s\<lparr>clock := t\<rparr>" w parsed v] by (simp add: step_def)
  next
    case (BinaryEnsured r n)
    then show ?thesis using assms te by (cases r) (simp_all add: handler_defs sf)
  next
    case (ProcStdout d)
    then show ?thesis using assms te by (simp add: handler_defs sf)
  next
    case (ProcStderr d)
    then show ?thesis using assms te by (simp add: handler_defs sf)
  next
    case (ProcClose c)
    then show ?thesis using assms te by (simp add: handler_defs sf)
  next
    case (ProcError m)
    then show ?thesis using assms te by (simp add: handler_defs sf)
  next
    case (Connection w f)
    then show ?thesis using assms te by (simp add: handler_defs sf getStatus_def)
  next
    case (WsClosed w)
    then show ?thesis using assms te by (simp add: handler_defs sf)
  next
    case MonitorTick
    then show ?thesis using assms te by (simp add: handler_defs sf)
  next
    case (Signal sg)
    then show ?thesis using assms te by (cases sg) (simp_all add: handler_defs sf)
  next
    case (TimerFired k)
    then show ?thesis using assms te by (cases k) (simp_all add: handler_defs sf)
  qed
qed

lemma after_shutdown_run:
  "shuttingDown s \<Longrightarrow>
   shuttingDown (run s tes)
   \<and> filter isKill (effects (run s tes)) = filter isKill (effects s)
   \<and> filter (isShutdownTo v) (effects (run s tes)) = filter (isShutdownTo v) (effects s)"
proof (induction tes arbitrary: s)
  case Nil
  then show ?case by simp
next
  case (Cons te tes)
  have "shuttingDown (step s te)
       \<and> filter isKill (effects (step s te)) = filter isKill (effects s)
       \<and> filter (isShutdownTo v) (effects (step s te)) = filter (isShutdownTo v) (effects s)"
    by (rule after_shutdown_step[OF Cons.prems])
  then show ?case using Cons.IH[of "step s te"] by simp
qed

lemma distinct_set_add: "distinct ws \<Longrightarrow> distinct (set_add w ws)"
  by (simp add: set_add_def)

lemma distinct_step:
  assumes "distinct (connectedClients s)"
  shows "distinct (connectedClients (step s te))"
proof -
  obtain t e where te: "te = (t, e)" by (cases te)
  show ?thesis
  proof (cases e)
    case (Message w parsed)
    then show ?thesis
      using assms te onMessage_frame[of "s\<lparr>clock := t\<rparr>" w parsed 0] by (simp add: step_def)
  next
    case (BinaryEnsured r n)
    then show ?thesis using assms te by (cases r) (simp_all add: handler_defs)
  next
    case (Signal sg)
    then show ?thesis using assms te by (cases sg) (simp_all add: handler_defs)
  next
    case (TimerFired k)
    then show ?thesis using assms te by (cases k) (simp_all add: handler_defs)
  next
    case (Connection w f)
    then show ?thesis using assms te by (simp add: handler_defs distinct_set_add)
  next
    case (WsClosed w)
    then show ?thesis using assms te by (simp add: handler_defs set_delete_def distinct_removeAll)
  qed (use assms te in \<open>simp_all add: handler_defs\<close>)
qed

lemma distinct_run:
  "distinct (connectedClients s) \<Longrightarrow> distinct (connectedClients (run s tes))"
  by (induction tes arbitrary: s) (simp_all add: distinct_step)

section \<open>The claims\<close>

subsection \<open>C1: shutdown is idempotent\<close>

lemma count_notify:
  "distinct ws \<Longrightarrow>
   length (filter (isShutdownTo w) (notifyEffects rs ws)) = (if w \<in> set ws \<and> rs w = 1 then 1 else 0)"
  by (induction ws) (auto simp: notifyEffects_def)

lemma funpow_shutdown:
  assumes "shuttingDown (shutdown s)" and "0 < n"
  shows "(shutdown ^^ n) s = shutdown s"
  using assms(2)
proof (induction n)
  case 0
  then show ?case by simp
next
  case (Suc n)
  show ?case
  proof (cases "n = 0")
    case True
    then show ?thesis by simp
  next
    case False
    then have "(shutdown ^^ n) s = shutdown s" using Suc.IH by simp
    then show ?thesis using assms(1) by (simp add: shutdown_noop)
  qed
qed

text \<open>
  C1. From a state in which shutdown has not begun, any number \<open>n > 0\<close> of invocations
  of \<open>shutdown\<close> leaves the same state as one invocation: the flag is set, every
  connection of the set that is open is sent the shutdown message exactly once (and no
  other socket is sent one), and \<open>kill\<close> is called exactly once on the subprocess
  handle (not at all when there is none yet, or when it is already marked killed). An
  invocation in a state where the flag is set returns the state unchanged, and whatever
  events follow the first invocation (ticks, signals, timers), the flag stays set and
  neither another \<open>kill\<close> nor another shutdown message is added to the trace. The set
  has no duplicates in any state a run reaches (\<open>distinct_run\<close>).
\<close>

theorem C1_shutdown_idempotent:
  assumes "\<not> shuttingDown s" and "distinct (connectedClients s)" and "0 < n"
  shows "shuttingDown (shutdown s)
       \<and> (shutdown ^^ n) s = shutdown s
       \<and> (\<forall>s'. shuttingDown s' \<longrightarrow> shutdown s' = s')
       \<and> (\<forall>w. length (filter (isShutdownTo w) (emitted s ((shutdown ^^ n) s)))
               = (if w \<in> set (connectedClients s) \<and> readyState s w = 1 then 1 else 0))
       \<and> filter isKill (emitted s ((shutdown ^^ n) s))
           = (case lanPlayProc s of
                Some p \<Rightarrow> if killed p then [] else [Kill (pid p)]
              | None \<Rightarrow> [])
       \<and> (\<forall>tes w. shuttingDown (run (shutdown s) tes)
             \<and> filter isKill (effects (run (shutdown s) tes))
                 = filter isKill (effects (shutdown s))
             \<and> filter (isShutdownTo w) (effects (run (shutdown s) tes))
                 = filter (isShutdownTo w) (effects (shutdown s)))"
proof -
  have sd: "shuttingDown (shutdown s)"
    by (simp add: shutdown_eq[OF assms(1,2)])
  have it: "(shutdown ^^ n) s = shutdown s"
    by (rule funpow_shutdown[OF sd assms(3)])
  have em: "emitted s (shutdown s) = [Log ''Shutting down...'']
                   @ notifyEffects (readyState s) (connectedClients s)
                   @ killEffects (lanPlayProc s) @ [SetTimeout ExitTask 1000]"
    by (simp add: emitted_def shutdown_eq[OF assms(1,2)])
  have nk: "filter isKill (notifyEffects (readyState s) (connectedClients s)) = []"
    unfolding notifySeq_distinct[OF assms(2), symmetric] by (rule notifySeq_filter) simp_all
  have c1: "\<forall>w. length (filter (isShutdownTo w) (emitted s (shutdown s)))
               = (if w \<in> set (connectedClients s) \<and> readyState s w = 1 then 1 else 0)"
    by (simp add: em count_notify[OF assms(2)] killEffects_def split: option.splits)
  have c2: "filter isKill (emitted s (shutdown s))
              = (case lanPlayProc s of
                   Some p \<Rightarrow> if killed p then [] else [Kill (pid p)]
                 | None \<Rightarrow> [])"
    by (simp add: em nk killEffects_def split: option.splits)
  have c3: "\<forall>tes w. shuttingDown (run (shutdown s) tes)
             \<and> filter isKill (effects (run (shutdown s) tes))
                 = filter isKill (effects (shutdown s))
             \<and> filter (isShutdownTo w) (effects (run (shutdown s) tes))
                 = filter (isShutdownTo w) (effects (shutdown s))"
    using after_shutdown_run[OF sd] by blast
  show ?thesis
    unfolding it using sd c1 c2 c3 by (simp add: shutdown_noop)
qed

theorem C1_shutdown_idempotent_witness:
  "\<not> shuttingDown demoState \<and> distinct (connectedClients demoState)
   \<and> (shutdown ^^ 3) demoState = shutdown demoState
   \<and> length (filter (isShutdownTo 1) (emitted demoState ((shutdown ^^ 3) demoState))) = 1
   \<and> length (filter (isShutdownTo 2) (emitted demoState ((shutdown ^^ 3) demoState))) = 1
   \<and> length (filter (isShutdownTo 7) (emitted demoState ((shutdown ^^ 3) demoState))) = 0
   \<and> filter isKill (emitted demoState ((shutdown ^^ 3) demoState)) = [Kill 0]
   \<and> filter isKill
       (effects (run (shutdown demoState) [(5000, MonitorTick), (5001, Signal SIGINT)]))
       = filter isKill (effects (shutdown demoState))"
proof -
  have h1: "\<not> shuttingDown demoState" by (simp add: demoState_fields)
  have h2: "distinct (connectedClients demoState)" by (simp add: demoState_fields)
  have h3: "(0::nat) < 3" by simp
  note t = C1_shutdown_idempotent[OF h1 h2 h3]
  from t have a: "(shutdown ^^ 3) demoState = shutdown demoState" by blast
  from t have b: "length (filter (isShutdownTo w) (emitted demoState (shutdown demoState)))
       = (if w \<in> set (connectedClients demoState) \<and> readyState demoState w = 1 then 1 else 0)" for w
    unfolding a by blast
  from t have c: "filter isKill (emitted demoState (shutdown demoState)) = [Kill 0]"
    unfolding a by (simp add: demoState_fields)
  from t have d: "filter isKill (effects (run (shutdown demoState) tes))
       = filter isKill (effects (shutdown demoState))" for tes
    by blast
  have e1: "length (filter (isShutdownTo 1) (emitted demoState (shutdown demoState))) = 1"
    and e2: "length (filter (isShutdownTo 2) (emitted demoState (shutdown demoState))) = 1"
    and e7: "length (filter (isShutdownTo 7) (emitted demoState (shutdown demoState))) = 0"
    using b[of 1] b[of 2] b[of 7] by (simp_all add: demoState_fields)
  show ?thesis
    unfolding a using h1 h2 e1 e2 e7 c d[of "[(5000, MonitorTick), (5001, Signal SIGINT)]"]
    by blast
qed

subsection \<open>C2: a restart armed before shutdown still fires\<close>

lemma no_restart_scheduled_during_shutdown:
  "shuttingDown s \<Longrightarrow> timers (onProcClose s code) = timers s"
  by (simp add: onProcClose_def Let_def log_def emit_def broadcastStatus_eq)

text \<open>
  C2. The \<open>'close'\<close> callback arms no restart once shutdown has begun
  (\<open>no_restart_scheduled_during_shutdown\<close>), but the callback it armed earlier is
  \<open>startLanPlay\<close> itself, which does not read \<open>shuttingDown\<close>. In the run below the
  subprocess exits at time 1000, the interrupt arrives at time 3500, and the restart
  timer fires at time 4000, before the exit timer due at 4500: a second subprocess is
  spawned while the flag is set.
\<close>

theorem C2_restart_fires_after_shutdown:
  "shuttingDown raceState \<and> \<not> exited raceState
   \<and> timers raceState = [(4000, RestartTask), (4500, ExitTask)]
   \<and> filter isSpawn (emitted raceState (step raceState (4000, TimerFired RestartTask)))
       = [Spawn 1 ''/opt/launcher/lan-play-linux'' [''--relay-server-addr'', ''example.com:11451'']]
   \<and> lanPlayRunning (step raceState (4000, TimerFired RestartTask))
   \<and> shuttingDown (step raceState (4000, TimerFired RestartTask))"
  by (simp add: step_def raceState_fields startLanPlay_def log_def emit_def broadcastStatus_eq
        statusFrames_def Let_def emitted_def demoConfig_def BINARY_PATH_def pathSep_def BINARY_NAME_def)

subsection \<open>C3: no heartbeat, no heartbeat timeout\<close>

text \<open>
  C3. From a state in which no heartbeat has been received and the heartbeat-timeout
  line has not been logged, no sequence of events without a heartbeat message, whatever
  their times, makes the monitor log that line: \<open>hasReceivedHeartbeat\<close> stays false,
  and the monitor is the only code that logs the line, behind that flag.
\<close>

theorem C3_no_heartbeat_no_heartbeat_timeout:
  assumes "\<not> hasReceivedHeartbeat s" and "Log heartbeatTimeoutLog \<notin> set (effects s)"
    and "\<forall>te\<in>set tes. \<not> isHeartbeat (snd te)"
  shows "\<not> hasReceivedHeartbeat (run s tes)
       \<and> Log heartbeatTimeoutLog \<notin> set (effects (run s tes))"
  using assms
proof (induction tes arbitrary: s)
  case Nil
  then show ?case by simp
next
  case (Cons te tes)
  obtain t e where te: "te = (t, e)" by (cases te)
  have "\<not> isHeartbeat e" using Cons.prems(3) te by simp
  then have "\<not> hasReceivedHeartbeat (step s (t, e))
       \<and> Log heartbeatTimeoutLog \<notin> set (effects (step s (t, e)))"
    using Cons.prems(1,2) by (intro quiet_step)
  then show ?case using Cons.IH[of "step s te"] Cons.prems(3) te by simp
qed

theorem C3_no_heartbeat_no_heartbeat_timeout_witness:
  "\<not> hasReceivedHeartbeat (run (init demoConfig 0) noHeartbeatRun)
   \<and> Log heartbeatTimeoutLog \<notin> set (effects (run (init demoConfig 0) noHeartbeatRun))"
proof -
  have a: "\<not> hasReceivedHeartbeat (init demoConfig 0)" by (simp add: init_def)
  have b: "Log heartbeatTimeoutLog \<notin> set (effects (init demoConfig 0))" by (simp add: init_def)
  have c: "\<forall>te\<in>set noHeartbeatRun. \<not> isHeartbeat (snd te)"
    by (simp add: noHeartbeatRun_def isHeartbeatMsg_def)
  show ?thesis by (rule C3_no_heartbeat_no_heartbeat_timeout[OF a b c])
qed

subsection \<open>C4: the reason of a monitor shutdown\<close>

text \<open>
  C4, as stated, fails: \<open>shutdown\<close> takes no reason, and the frame it sends always
  carries the reason \<open>'timeout'\<close>. Here the heartbeat timeout trips, 30001
  milliseconds after the last heartbeat.
\<close>

theorem C4_reason_is_timeout:
  "hasReceivedHeartbeat hbState \<and> lastHeartbeat hbState = 40
   \<and> emitted hbState (step hbState (30041, MonitorTick))
       = [Log ''No heartbeat for 30s. Browser tab likely closed.'', Log ''Shutting down...'',
          Send 1 (ShutdownMsg ''timeout''), Close 1 None,
          Send 2 (ShutdownMsg ''timeout''), Close 2 None,
          Kill 0, SetTimeout ExitTask 1000]"
  by (simp add: step_def monitorTick_def hbState_fields shutdown_seq log_def emit_def Let_def
        emitted_def heartbeatTimeoutMs_def heartbeatTimeoutLog_eq killEffects_def)

text \<open>
  C4, amended. When the monitor trips the heartbeat timeout it logs the heartbeat line,
  when it trips the inactivity timeout it logs the inactivity line, and in both cases
  \<open>shutdown\<close> sends the shutdown message with reason \<open>'timeout'\<close> to every open
  connection of the set, each just before closing it, then kills the subprocess and
  arms the exit.
\<close>

theorem C4_monitor_shutdown:
  assumes "\<not> shuttingDown s" and "distinct (connectedClients s)"
  shows "(hasReceivedHeartbeat s \<and> clock s - lastHeartbeat s > heartbeatTimeoutMs \<longrightarrow>
            emitted s (monitorTick s)
              = [Log ''No heartbeat for 30s. Browser tab likely closed.'', Log ''Shutting down...'']
                  @ notifyEffects (readyState s) (connectedClients s)
                  @ killEffects (lanPlayProc s) @ [SetTimeout ExitTask 1000])
       \<and> (\<not> (hasReceivedHeartbeat s \<and> clock s - lastHeartbeat s > heartbeatTimeoutMs)
            \<and> clock s - lastActivity s > inactivityTimeoutMs \<longrightarrow>
            emitted s (monitorTick s)
              = [Log ''No activity for 10 minutes.'', Log ''Shutting down...'']
                  @ notifyEffects (readyState s) (connectedClients s)
                  @ killEffects (lanPlayProc s) @ [SetTimeout ExitTask 1000])"
proof -
  have a: "\<not> shuttingDown (log s m)" and b: "distinct (connectedClients (log s m))" for m
    using assms by (simp_all add: log_def emit_def)
  show ?thesis
    using assms(1)
    by (simp add: monitorTick_def Let_def shutdown_eq[OF a b] emitted_def
          heartbeatTimeoutLog_eq inactivityTimeoutLog_eq) (simp add: log_def emit_def)
qed

theorem C4_monitor_shutdown_witness:
  "emitted (hbState\<lparr>clock := 30041\<rparr>) (monitorTick (hbState\<lparr>clock := 30041\<rparr>))
     = [Log ''No heartbeat for 30s. Browser tab likely closed.'', Log ''Shutting down...'',
        Send 1 (ShutdownMsg ''timeout''), Close 1 None,
        Send 2 (ShutdownMsg ''timeout''), Close 2 None, Kill 0, SetTimeout ExitTask 1000]
   \<and> emitted (demoState\<lparr>clock := 600031\<rparr>) (monitorTick (demoState\<lparr>clock := 600031\<rparr>))
     = [Log ''No activity for 10 minutes.'', Log ''Shutting down...'',
        Send 1 (ShutdownMsg ''timeout''), Close 1 None,
        Send 2 (ShutdownMsg ''timeout''), Close 2 None, Kill 0, SetTimeout ExitTask 1000]"
proof -
  have a: "\<not> shuttingDown (hbState\<lparr>clock := 30041\<rparr>)"
    and b: "distinct (connectedClients (hbState\<lparr>clock := 30041\<rparr>))"
    by (simp_all add: hbState_fields)
  have c: "\<not> shuttingDown (demoState\<lparr>clock := 600031\<rparr>)"
    and d: "distinct (connectedClients (demoState\<lparr>clock := 600031\<rparr>))"
    by (simp_all add: demoState_fields)
  show ?thesis
    using C4_monitor_shutdown[OF a b] C4_monitor_shutdown[OF c d]
    by (simp add: hbState_fields demoState_fields heartbeatTimeoutMs_def inactivityTimeoutMs_def
          notifyEffects_def killEffects_def)
qed

subsection \<open>C5: subprocess output\<close>

text \<open>
  C5, as stated, fails twice. A chunk of output that is blank after trimming (a line
  feed; a no-break space and a line separator) is not logged, since the source tests
  \<open>if (line)\<close>; and a chunk on the standard error stream is logged but starts no
  broadcast, although two browsers are connected and open.
\<close>

theorem C5_blank_line_and_stderr:
  "connectedClients demoState = [1, 2] \<and> readyState demoState 1 = 1
   \<and> filter isLog (emitted demoState (step demoState (40, ProcStdout [0x0A]))) = []
   \<and> filter isLog (emitted demoState (step demoState (40, ProcStdout [0xA0, 0x2028]))) = []
   \<and> emitted demoState (step demoState (40, ProcStderr (ascii ''bind failed'')))
       = [Log ''[lan-play] bind failed'']"
  by (simp add: step_def onStdoutData_def onStderrData_def demoState_fields log_def emit_def
        broadcastStatus_eq statusFrames_def trim_examples utf8_bind_failed ascii_not_Nil
        Let_def emitted_def)

text \<open>
  C5, amended. Every chunk of output, on either stream, sets \<open>lastActivity\<close> to the
  current time and is logged, trimmed and prefixed, unless it is empty after trimming;
  a chunk on the standard output stream also sends the status to every connection of
  the set that is open.
\<close>

theorem C5_subprocess_output:
  "lastActivity (onStdoutData s d) = clock s
   \<and> lastActivity (onStderrData s d) = clock s
   \<and> filter isLog (emitted s (onStdoutData s d))
       = (if trim d = [] then [] else [Log (''[lan-play] '' @ utf8 (trim d))])
   \<and> filter isLog (emitted s (onStderrData s d))
       = (if trim d = [] then [] else [Log (''[lan-play] '' @ utf8 (trim d))])
   \<and> filter isSend (emitted s (onStdoutData s d)) = statusFrames s"
  by (simp add: onStdoutData_def onStderrData_def log_def emit_def broadcastStatus_eq
        statusFrames_def getStatus_def Let_def emitted_def)

theorem C5_subprocess_output_witness:
  "lastActivity (onStdoutData (demoState\<lparr>clock := 50\<rparr>) [0xA0, 0x48, 0x69, 0x2028, 0x0A]) = 50
   \<and> filter isLog (emitted (demoState\<lparr>clock := 50\<rparr>)
        (onStdoutData (demoState\<lparr>clock := 50\<rparr>) [0xA0, 0x48, 0x69, 0x2028, 0x0A]))
       = [Log ''[lan-play] Hi'']
   \<and> filter isLog (emitted (demoState\<lparr>clock := 50\<rparr>)
        (onStderrData (demoState\<lparr>clock := 50\<rparr>) [0xFFFD, 0x41, 0x0D, 0x0A]))
       = [Log (''[lan-play] '' @ [CHR 0xEF, CHR 0xBF, CHR 0xBD, CHR ''A''])]
   \<and> filter isLog (emitted (demoState\<lparr>clock := 50\<rparr>)
        (onStderrData (demoState\<lparr>clock := 50\<rparr>) [0xA0, 0x2028]))
       = []
   \<and> filter isSend (emitted (demoState\<lparr>clock := 50\<rparr>)
        (onStdoutData (demoState\<lparr>clock := 50\<rparr>) [0xA0, 0x48, 0x69, 0x2028, 0x0A]))
       = [Send 1 (StatusMsg \<lparr>running = True, relay = ''example.com:11451'',
                             platform = ''linux'', version = ''0.2.3''\<rparr>),
          Send 2 (StatusMsg \<lparr>running = True, relay = ''example.com:11451'',
                             platform = ''linux'', version = ''0.2.3''\<rparr>)]"
proof -
  note a = C5_subprocess_output[of "demoState\<lparr>clock := 50\<rparr>" "[0xA0, 0x48, 0x69, 0x2028, 0x0A]"]
  note b = C5_subprocess_output[of "demoState\<lparr>clock := 50\<rparr>" "[0xFFFD, 0x41, 0x0D, 0x0A]"]
  note c = C5_subprocess_output[of "demoState\<lparr>clock := 50\<rparr>" "[0xA0, 0x2028]"]
  have sf: "statusFrames (demoState\<lparr>clock := 50\<rparr>)
      = [Send 1 (StatusMsg \<lparr>running = True, relay = ''example.com:11451'',
                             platform = ''linux'', version = ''0.2.3''\<rparr>),
          Send 2 (StatusMsg \<lparr>running = True, relay = ''example.com:11451'',
                             platform = ''linux'', version = ''0.2.3''\<rparr>)]"
    by (simp add: statusFrames_def getStatus_def demoState_fields demoConfig_def lanPlayVersion_def)
  show ?thesis
    using a b c unfolding sf trim_examples utf8_examples by simp
qed

subsection \<open>C6: connections with a forwarding header\<close>

text \<open>
  C6, as stated, fails: the guard is the truthiness of the header value, so a request
  whose \<open>X-Forwarded-For\<close> header has the empty value is accepted; it joins the set,
  moves \<open>lastActivity\<close> and is sent the status.
\<close>

theorem C6_empty_forwarded_header_accepted:
  "3 \<notin> set (connectedClients demoState) \<and> lastActivity demoState = 30
   \<and> 3 \<in> set (connectedClients (step demoState (40, Connection 3 (Some []))))
   \<and> lastActivity (step demoState (40, Connection 3 (Some []))) = 40
   \<and> emitted demoState (step demoState (40, Connection 3 (Some [])))
       = [Log ''Browser connected'',
          Send 3 (StatusMsg \<lparr>running = True, relay = ''example.com:11451'',
                            platform = ''linux'', version = ''0.2.3''\<rparr>)]"
  by (simp add: step_def onConnection_def demoState_fields log_def emit_def set_add_def wsSend_def
        getStatus_def Let_def emitted_def demoConfig_def lanPlayVersion_def)

text \<open>
  C6, amended. A connection whose \<open>X-Forwarded-For\<close> header has a non-empty value is
  closed with code 4003: the set, \<open>lastActivity\<close>, \<open>lastHeartbeat\<close> and
  \<open>hasReceivedHeartbeat\<close> are as before, a line is logged, and nothing is sent; only
  the ready state of the rejected socket and the trace change.
\<close>

theorem C6_forwarded_connection_rejected:
  assumes "forwarded = Some v" and "v \<noteq> []"
  shows "connectedClients (onConnection s w forwarded) = connectedClients s
       \<and> lastActivity (onConnection s w forwarded) = lastActivity s
       \<and> lastHeartbeat (onConnection s w forwarded) = lastHeartbeat s
       \<and> hasReceivedHeartbeat (onConnection s w forwarded) = hasReceivedHeartbeat s
       \<and> emitted s (onConnection s w forwarded)
           = [Log ''Rejected connection with X-Forwarded-For header (possible proxy)'',
              Close w (Some (4003, ''Forbidden''))]
       \<and> onConnection s w forwarded
           = s\<lparr>readyState := (readyState s)(w := (if readyState s w = 1 then 2 else readyState s w)),
               effects := effects (onConnection s w forwarded)\<rparr>"
  using assms by (simp add: onConnection_def ws_close_def log_def emit_def emitted_def)

theorem C6_forwarded_connection_rejected_witness:
  "connectedClients (onConnection demoState 3 (Some ''10.0.0.7'')) = connectedClients demoState
   \<and> lastActivity (onConnection demoState 3 (Some ''10.0.0.7'')) = lastActivity demoState
   \<and> emitted demoState (onConnection demoState 3 (Some ''10.0.0.7''))
       = [Log ''Rejected connection with X-Forwarded-For header (possible proxy)'',
          Close 3 (Some (4003, ''Forbidden''))]"
proof -
  have a: "Some ''10.0.0.7'' = Some ''10.0.0.7''" by simp
  have b: "''10.0.0.7'' \<noteq> []" by simp
  show ?thesis using C6_forwarded_connection_rejected[OF a b, of demoState 3] by blast
qed

subsection \<open>C7: acquiring the binary\<close>




subsection \<open>C8: what a failed download leaves\<close>

text \<open>
  C8. The failures that reach \<open>onError\<close> (too many redirects, a status other than
  200, an error of the request: \<open>follow_failure_kinds\<close>) are followed by \<open>unlink\<close>
  and the rejection (\<open>ensureBinary_failed\<close>). The failures after a response with
  status 200 has begun are not: the source listens for \<open>'finish'\<close> on the file and
  for \<open>'error'\<close> on the request only. Below, the connection is closed after two of the
  three bytes of the body; the second byte cannot be written; a redirect names a
  relative reference, on which \<open>http.get\<close> throws. Each time the promise never
  settles, \<open>unlink\<close> is not called, and a file stays at the path, with a part of the
  binary or empty, where the next run takes it for the binary.
\<close>

theorem C8_partial_file_left:
  "ensureBinary demoConfig netCutShort DiskOk Map.empty
     = ([''/opt/launcher/lan-play-linux'' \<mapsto> ''EL''],
        [FsLog ''Downloading lan-play from https://github.com/spacemeowx2/switch-lan-play/releases/download/v0.2.3/lan-play-linux ...'',
         CreateWriteStream ''/opt/launcher/lan-play-linux'',
         HttpGet Https ''https://github.com/spacemeowx2/switch-lan-play/releases/download/v0.2.3/lan-play-linux''],
        None)
   \<and> ensureBinary demoConfig netServes (WriteFails 1) Map.empty
     = ([''/opt/launcher/lan-play-linux'' \<mapsto> ''E''],
        [FsLog ''Downloading lan-play from https://github.com/spacemeowx2/switch-lan-play/releases/download/v0.2.3/lan-play-linux ...'',
         CreateWriteStream ''/opt/launcher/lan-play-linux'',
         HttpGet Https ''https://github.com/spacemeowx2/switch-lan-play/releases/download/v0.2.3/lan-play-linux''],
        None)
   \<and> ensureBinary demoConfig netRelative DiskOk Map.empty
     = ([''/opt/launcher/lan-play-linux'' \<mapsto> []],
        [FsLog ''Downloading lan-play from https://github.com/spacemeowx2/switch-lan-play/releases/download/v0.2.3/lan-play-linux ...'',
         CreateWriteStream ''/opt/launcher/lan-play-linux'',
         HttpGet Https ''https://github.com/spacemeowx2/switch-lan-play/releases/download/v0.2.3/lan-play-linux''],
        None)"
proof -
  have absent: "Map.empty (BINARY_PATH demoConfig) = None" by simp
  have a: "ensureBinary demoConfig netCutShort DiskOk Map.empty
     = (Map.empty(BINARY_PATH demoConfig \<mapsto> ''EL''),
        [FsLog (''Downloading lan-play from '' @ BINARY_URL demoConfig @ '' ...''),
         CreateWriteStream (BINARY_PATH demoConfig)]
          @ map (\<lambda>u. HttpGet (getterFor u) u) [BINARY_URL demoConfig],
        None)"
    using ensureBinary_stalled[OF absent follow_netCutShort, of DiskOk] by simp
  have b: "ensureBinary demoConfig netServes (WriteFails 1) Map.empty
     = (Map.empty(BINARY_PATH demoConfig \<mapsto> ''E''),
        [FsLog (''Downloading lan-play from '' @ BINARY_URL demoConfig @ '' ...''),
         CreateWriteStream (BINARY_PATH demoConfig)]
          @ map (\<lambda>u. HttpGet (getterFor u) u) [BINARY_URL demoConfig],
        None)"
    using ensureBinary_stalled[OF absent follow_netServes, of "WriteFails 1"] by simp
  have c: "ensureBinary demoConfig netRelative DiskOk Map.empty
     = (Map.empty(BINARY_PATH demoConfig \<mapsto> []),
        [FsLog (''Downloading lan-play from '' @ BINARY_URL demoConfig @ '' ...''),
         CreateWriteStream (BINARY_PATH demoConfig)]
          @ map (\<lambda>u. HttpGet (getterFor u) u) [BINARY_URL demoConfig],
        None)"
    using ensureBinary_thrown[OF absent follow_netRelative, of DiskOk] by simp
  show ?thesis
    unfolding a b c by (simp add: demo_paths getterFor_def)
qed

subsection \<open>C9: inactivity counted from initialisation\<close>

text \<open>
  C9. \<open>lastActivity\<close> is the load time at first and the current time after every
  \<open>startLanPlay\<close>. After silent events only (no connection, no client message, no
  subprocess output, no further start), a monitor tick at time \<open>t\<close> in a launcher that
  is not shutting down fires the inactivity trigger exactly when \<open>t\<close> minus that time
  exceeds the inactivity timeout. And whatever the events, as long as their times lie
  within the timeout after the load time \<open>t0\<close>, the inactivity line is never logged.
\<close>

theorem C9_inactivity_from_initialisation:
  assumes "\<forall>te\<in>set tes. silent (snd te)"
    and "\<forall>te\<in>set evs. t0 \<le> fst te \<and> fst te \<le> t0 + inactivityTimeoutMs"
  shows "lastActivity (init c t0) = t0
       \<and> lastActivity (startLanPlay s) = clock s
       \<and> (\<not> shuttingDown (run (init c t0) tes) \<and> \<not> exited (run (init c t0) tes) \<longrightarrow>
            (inactivityFired (run (init c t0) tes) (step (run (init c t0) tes) (t, MonitorTick))
              \<longleftrightarrow> t - t0 > inactivityTimeoutMs))
       \<and> (\<not> hasReceivedHeartbeat s \<and> \<not> shuttingDown (run (startLanPlay s) tes)
            \<and> \<not> exited (run (startLanPlay s) tes) \<longrightarrow>
            (inactivityFired (run (startLanPlay s) tes) (step (run (startLanPlay s) tes) (t, MonitorTick))
              \<longleftrightarrow> t - clock s > inactivityTimeoutMs))
       \<and> Log inactivityTimeoutLog \<notin> set (effects (run (init c t0) evs))"
proof (intro conjI impI)
  show "lastActivity (init c t0) = t0" by (simp add: init_def)
next
  show "lastActivity (startLanPlay s) = clock s" by (simp add: startLanPlay_lastActivity)
next
  let ?s = "run (init c t0) tes"
  assume a: "\<not> shuttingDown ?s \<and> \<not> exited ?s"
  have "lastActivity ?s = t0" and "\<not> hasReceivedHeartbeat ?s"
    using silent_run[OF assms(1), of "init c t0"] by (simp_all add: init_def)
  then show "inactivityFired ?s (step ?s (t, MonitorTick)) \<longleftrightarrow> t - t0 > inactivityTimeoutMs"
    using a tick_inactivity[of ?s t] by simp
next
  let ?s = "run (startLanPlay s) tes"
  assume a: "\<not> hasReceivedHeartbeat s \<and> \<not> shuttingDown ?s \<and> \<not> exited ?s"
  have "lastActivity ?s = clock s" and "\<not> hasReceivedHeartbeat ?s"
    using silent_run[OF assms(1), of "startLanPlay s"] a by (simp_all add: startLanPlay_lastActivity)
  then show "inactivityFired ?s (step ?s (t, MonitorTick)) \<longleftrightarrow> t - clock s > inactivityTimeoutMs"
    using a tick_inactivity[of ?s t] by simp
next
  show "Log inactivityTimeoutLog \<notin> set (effects (run (init c t0) evs))"
    using early_run[of t0 "init c t0" evs] assms(2) by (simp add: init_def)
qed

theorem C9_inactivity_from_initialisation_witness:
  "inactivityFired (run (startLanPlay demoState) silentRun)
      (step (run (startLanPlay demoState) silentRun) (600031, MonitorTick))
   \<and> \<not> inactivityFired (run (startLanPlay demoState) silentRun)
      (step (run (startLanPlay demoState) silentRun) (600030, MonitorTick))
   \<and> \<not> inactivityFired (run (init demoConfig 0) silentRun)
      (step (run (init demoConfig 0) silentRun) (600000, MonitorTick))
   \<and> Log inactivityTimeoutLog \<notin> set (effects (run (init demoConfig 0) earlyRun))"
proof -
  have a: "\<forall>te\<in>set silentRun. silent (snd te)" by (simp add: silentRun_def)
  have b: "\<forall>te\<in>set earlyRun. (0::int) \<le> fst te \<and> fst te \<le> 0 + inactivityTimeoutMs"
    by (simp add: earlyRun_def inactivityTimeoutMs_def)
  have c: "\<not> hasReceivedHeartbeat demoState" by (simp add: demoState_fields)
  have d: "\<not> shuttingDown (run (startLanPlay demoState) silentRun)
           \<and> \<not> exited (run (startLanPlay demoState) silentRun)"
    by (simp add: silentRun_def handler_defs demoState_fields inactivityTimeoutMs_def)
  have e: "\<not> shuttingDown (run (init demoConfig 0) silentRun)
           \<and> \<not> exited (run (init demoConfig 0) silentRun)"
    by (simp add: silentRun_def handler_defs init_def inactivityTimeoutMs_def)
  have k: "clock demoState = 30" by (simp add: demoState_fields)
  note t1 = C9_inactivity_from_initialisation[OF a b, where c=demoConfig and s=demoState and t=600031]
  note t2 = C9_inactivity_from_initialisation[OF a b, where c=demoConfig and s=demoState and t=600030]
  note t3 = C9_inactivity_from_initialisation[OF a b, where c=demoConfig and s=demoState and t=600000]
  show ?thesis
    using t1 t2 t3 c d e by (simp add: k inactivityTimeoutMs_def)
qed

subsection \<open>C10: a message of an unknown type\<close>

text \<open>
  C10. A message that parses and whose \<open>type\<close> is neither \<open>'heartbeat'\<close> nor
  \<open>'status'\<close> (also one whose \<open>type\<close> cannot be read, as for \<open>null\<close>) leaves the
  state as it was but for \<open>lastActivity\<close>, which becomes the current time, and sends
  nothing: the state is the one a message that does not parse leaves.
\<close>

theorem C10_unrecognised_message:
  assumes "get_type m \<noteq> Inr (Some (JString ''heartbeat''))"
    and "get_type m \<noteq> Inr (Some (JString ''status''))"
  shows "onMessage s w (Inr m) = s\<lparr>lastActivity := clock s\<rparr>
       \<and> onMessage s w (Inr m) = onMessage s w (Inl SyntaxError)
       \<and> emitted s (onMessage s w (Inr m)) = []"
  using assms by (auto simp: onMessage_def Let_def emitted_def split: sum.splits)

theorem C10_unrecognised_message_witness:
  "onMessage demoState 1 (Inr (JObject [(''type'', JString ''ping''), (''n'', JNumber 1)]))
     = demoState\<lparr>lastActivity := clock demoState\<rparr>
   \<and> onMessage demoState 1 (Inr JNull) = onMessage demoState 1 (Inl SyntaxError)
   \<and> emitted demoState (onMessage demoState 1 (Inr (JArray []))) = []"
proof -
  have a: "get_type (JObject [(''type'', JString ''ping''), (''n'', JNumber 1)]) \<noteq> Inr (Some (JString ''heartbeat''))"
    and b: "get_type (JObject [(''type'', JString ''ping''), (''n'', JNumber 1)]) \<noteq> Inr (Some (JString ''status''))"
    by simp_all
  have c: "get_type JNull \<noteq> Inr (Some (JString ''heartbeat''))"
    and d: "get_type JNull \<noteq> Inr (Some (JString ''status''))"
    by simp_all
  have e: "get_type (JArray []) \<noteq> Inr (Some (JString ''heartbeat''))"
    and f: "get_type (JArray []) \<noteq> Inr (Some (JString ''status''))"
    by simp_all
  show ?thesis
    using C10_unrecognised_message[OF a b, of demoState 1]
      C10_unrecognised_message[OF c d, of demoState 1]
      C10_unrecognised_message[OF e f, of demoState 1]
    by blast
qed

end
